theory Spec2Isabelle
  imports Main
begin

section \<open>JavaScript and Node library functions used by the server\<close>

text \<open>
  Strings are lists of characters.  The functions of this section model the built-ins the
  backend calls: \<^verbatim>\<open>String.prototype.trim\<close>, \<^verbatim>\<open>slice\<close>, \<^verbatim>\<open>replace\<close>,
  \<^verbatim>\<open>Array.prototype.join\<close>, \<^verbatim>\<open>Object.keys\<close>, \<^verbatim>\<open>Object.values\<close>, \<^verbatim>\<open>path.basename\<close>
  and \<^verbatim>\<open>path.join\<close> (POSIX flavour).
\<close>

definition startsWith :: "string \<Rightarrow> string \<Rightarrow> bool" where
  \<comment> \<open>\<^verbatim>\<open>str.slice(0, prefix.length) === prefix\<close>\<close>
  "startsWith str prefix = (take (length prefix) str = prefix)"

definition is_js_space :: "char \<Rightarrow> bool" where
  \<comment> \<open>the white space and line terminators removed by \<^verbatim>\<open>trim\<close>, among the code units
      below 256 that a character of the model stands for: tab, line feed, vertical tab,
      form feed, carriage return, space and the no-break space\<close>
  "is_js_space c = (c \<in> {CHR 0x09, CHR 0x0A, CHR 0x0B, CHR 0x0C, CHR 0x0D, CHR 0x20, CHR 0xA0})"

definition js_trim :: "string \<Rightarrow> string" where
  "js_trim str = rev (dropWhile is_js_space (rev (dropWhile is_js_space str)))"

fun replace_first :: "string \<Rightarrow> string \<Rightarrow> string \<Rightarrow> string" where
  \<comment> \<open>\<^verbatim>\<open>str.replace(pat, rep)\<close> with a string pattern: only the first occurrence\<close>
  "replace_first pat rep [] = (if pat = [] then rep else [])"
| "replace_first pat rep (c # cs) =
     (if take (length pat) (c # cs) = pat then rep @ drop (length pat) (c # cs)
      else c # replace_first pat rep cs)"

definition escape_quotes :: "string \<Rightarrow> string" where
  \<comment> \<open>\<^verbatim>\<open>val.replace(/'/g, "''")\<close>: every single quote is doubled\<close>
  "escape_quotes val = concat (map (\<lambda>c. if c = CHR 0x27 then [CHR 0x27, CHR 0x27] else [c]) val)"

fun join :: "string \<Rightarrow> string list \<Rightarrow> string" where
  "join sep [] = []"
| "join sep [x] = x"
| "join sep (x # y # ys) = x @ sep @ join sep (y # ys)"

definition digit_char :: "nat \<Rightarrow> char" where
  "digit_char d = char_of (48 + d)"

fun show_nat :: "nat \<Rightarrow> string" where
  \<comment> \<open>the decimal rendering of a number inside a template literal\<close>
  "show_nat n = (if n < 10 then [digit_char n] else show_nat (n div 10) @ [digit_char (n mod 10)])"

declare show_nat.simps [simp del]

subsection \<open>Objects and their key order\<close>

text \<open>
  A row is a JavaScript object with string values: the list of its own properties in the
  order in which they were created, each key once.  \<^verbatim>\<open>Object.keys\<close> does not enumerate
  in creation order in general: keys that are array indices (canonical decimal numerals
  below \<open>2^32 - 1\<close>) come first, in ascending numeric order, and the other keys follow in
  creation order.  \<^verbatim>\<open>Object.values\<close> enumerates in the same order.
\<close>

type_synonym jsobject = "(string \<times> string) list"

definition is_digit :: "char \<Rightarrow> bool" where
  "is_digit c = ((48::nat) \<le> of_char c \<and> (of_char c :: nat) \<le> 57)"

definition nat_of_digits :: "string \<Rightarrow> nat" where
  "nat_of_digits k = foldl (\<lambda>n c. 10 * n + ((of_char c :: nat) - 48)) 0 k"

definition is_array_index :: "string \<Rightarrow> bool" where
  "is_array_index k =
     (k \<noteq> [] \<and> list_all is_digit k \<and> (k = ''0'' \<or> hd k \<noteq> CHR ''0'') \<and>
      nat_of_digits k < 4294967295)"

definition object_entries :: "jsobject \<Rightarrow> jsobject" where
  "object_entries obj =
     sort_key (\<lambda>e. nat_of_digits (fst e)) (filter (\<lambda>e. is_array_index (fst e)) obj) @
     filter (\<lambda>e. \<not> is_array_index (fst e)) obj"

definition object_keys :: "jsobject \<Rightarrow> string list" where
  "object_keys obj = map fst (object_entries obj)"

definition object_values :: "jsobject \<Rightarrow> string list" where
  "object_values obj = map snd (object_entries obj)"

text \<open>
  Reading a property, \<^verbatim>\<open>obj[key]\<close>, finds more than the object's own properties: a key
  that the object does not have itself is looked up in \<^verbatim>\<open>Object.prototype\<close>, which every
  object built from JSON text or by an object literal inherits from.  Eleven of its
  members are native functions, each with its number of declared parameters (its
  \<^verbatim>\<open>length\<close>); reading \<^verbatim>\<open>__proto__\<close> yields the prototype object itself.
\<close>

datatype inherited =
    NativeFunction string nat  \<comment> \<open>the function's name and its \<^verbatim>\<open>length\<close>\<close>
  | PrototypeObject

definition object_prototype :: "string \<rightharpoonup> inherited" where
  "object_prototype =
     map_of
       [(''constructor'', NativeFunction ''Object'' 1),
        (''hasOwnProperty'', NativeFunction ''hasOwnProperty'' 1),
        (''isPrototypeOf'', NativeFunction ''isPrototypeOf'' 1),
        (''propertyIsEnumerable'', NativeFunction ''propertyIsEnumerable'' 1),
        (''toLocaleString'', NativeFunction ''toLocaleString'' 0),
        (''toString'', NativeFunction ''toString'' 0),
        (''valueOf'', NativeFunction ''valueOf'' 0),
        (''__defineGetter__'', NativeFunction ''__defineGetter__'' 2),
        (''__defineSetter__'', NativeFunction ''__defineSetter__'' 2),
        (''__lookupGetter__'', NativeFunction ''__lookupGetter__'' 1),
        (''__lookupSetter__'', NativeFunction ''__lookupSetter__'' 1),
        (''__proto__'', PrototypeObject)]"

fun render_inherited :: "inherited \<Rightarrow> string" where
  \<comment> \<open>\<^verbatim>\<open>String(value)\<close> of an inherited member\<close>
  "render_inherited (NativeFunction name n) = ''function '' @ name @ ''() { [native code] }''"
| "render_inherited PrototypeObject = ''[object Object]''"

definition js_get :: "jsobject \<Rightarrow> string \<Rightarrow> string option" where
  \<comment> \<open>\<^verbatim>\<open>String(record[key])\<close>, and nothing when \<^verbatim>\<open>record[key]\<close> is undefined\<close>
  "js_get record key =
     (case map_of record key of
        Some v \<Rightarrow> Some v
      | None \<Rightarrow> map_option render_inherited (object_prototype key))"

subsection \<open>Paths\<close>

definition basename :: "string \<Rightarrow> string" where
  \<comment> \<open>\<^verbatim>\<open>path.basename(p)\<close>: trailing separators are dropped, then the part after the last
      separator is returned; the empty string when there is nothing else\<close>
  "basename p = rev (takeWhile (\<lambda>c. c \<noteq> CHR ''/'') (dropWhile (\<lambda>c. c = CHR ''/'') (rev p)))"

fun split_path :: "string \<Rightarrow> string list" where
  "split_path [] = [[]]"
| "split_path (c # cs) =
     (if c = CHR ''/'' then [] # split_path cs
      else (case split_path cs of [] \<Rightarrow> [[c]] | seg # segs \<Rightarrow> (c # seg) # segs))"

fun resolve_segments :: "string list \<Rightarrow> string list \<Rightarrow> string list" where
  \<comment> \<open>the first argument is the stack of directories entered so far, innermost first\<close>
  "resolve_segments stack [] = rev stack"
| "resolve_segments stack (seg # segs) =
     (if seg = [] \<or> seg = ''.'' then resolve_segments stack segs
      else if seg = ''..'' then resolve_segments (tl stack) segs
      else resolve_segments (seg # stack) segs)"

definition path_normalize :: "string \<Rightarrow> string" where
  \<comment> \<open>\<^verbatim>\<open>path.normalize\<close> of an absolute path without trailing separator: \<^verbatim>\<open>.\<close> and empty
      segments vanish, \<^verbatim>\<open>..\<close> removes the directory before it and stops at the root\<close>
  "path_normalize p = CHR ''/'' # join ''/'' (resolve_segments [] (split_path p))"

definition path_join :: "string \<Rightarrow> string \<Rightarrow> string" where
  \<comment> \<open>\<^verbatim>\<open>path.join(a, b)\<close> for an absolute \<open>a\<close>: empty arguments are skipped, the rest is
      joined with the separator and normalised\<close>
  "path_join a b = (if b = [] then path_normalize a else path_normalize (a @ ''/'' @ b))"

definition inside_dir :: "string \<Rightarrow> string \<Rightarrow> bool" where
  \<comment> \<open>\<open>p\<close> names something strictly below the directory \<open>d\<close>\<close>
  "inside_dir d p = (length d + 1 < length p \<and> take (length d + 1) p = d @ ''/'')"

section \<open>The process-wide state of the server\<close>

record connection_config =
  url :: string
  username :: string
  password :: string
  database :: string

datatype file_node =
    Directory
  | CsvFile "string list list"  \<comment> \<open>a delimited file: the header line, then one line of cells per record\<close>

datatype io_event =
    CreateClient connection_config
  | Query connection_config string
  | Exec connection_config string
  | FsExists string
  | FsMkdir string
  | FsRead string
  | FsWrite string
  | FsDownload string

text \<open>
  The module-level variables \<^verbatim>\<open>client\<close> and \<^verbatim>\<open>connectionConfig\<close>, together with what the
  handlers act on: the contents of the store, the local disk, and the log of every
  call that leaves the process.  A client is represented by the configuration it was
  created from.  The last field collects the rejections of promises that nothing awaits:
  Node reports such a rejection after the handler has answered, and current versions end
  the process on it.
\<close>

record 'db server =
  client :: "connection_config option"
  connectionConfig :: "connection_config option"
  db :: 'db
  disk :: "string \<rightharpoonup> file_node"
  trace :: "io_event list"
  unhandled :: "string list"

text \<open>
  What the code does not decide: the directory of the script, whether \<^verbatim>\<open>createClient\<close>
  throws on a configuration, what the store answers to a statement (an error message, or
  rows and the store's new contents), and what the CSV parser makes of a file.
\<close>

record 'db world =
  dirname :: string
  create_client_throws :: "connection_config \<Rightarrow> string option"
  store_run :: "'db \<Rightarrow> connection_config \<Rightarrow> string \<Rightarrow> string + (jsobject list \<times> 'db)"
  parse_csv :: "string \<Rightarrow> string list list \<Rightarrow> string + jsobject list"

definition log_event :: "io_event \<Rightarrow> 'db server \<Rightarrow> 'db server" where
  "log_event e s = s\<lparr>trace := trace s @ [e]\<rparr>"

definition client_query ::
  "'db world \<Rightarrow> string \<Rightarrow> 'db server \<Rightarrow> (string + jsobject list) \<times> 'db server" where
  \<comment> \<open>\<^verbatim>\<open>await (await client.query({query, format: "JSONEachRow"})).json()\<close>\<close>
  "client_query W q s =
     (case client s of
        None \<Rightarrow> (Inl ''TypeError: Cannot read properties of null'', s)
      | Some cfg \<Rightarrow>
          (case store_run W (db s) cfg q of
             Inl err \<Rightarrow> (Inl err, log_event (Query cfg q) s)
           | Inr (rows, db') \<Rightarrow> (Inr rows, (log_event (Query cfg q) s)\<lparr>db := db'\<rparr>)))"

definition client_exec ::
  "'db world \<Rightarrow> string \<Rightarrow> 'db server \<Rightarrow> (string + unit) \<times> 'db server" where
  \<comment> \<open>\<^verbatim>\<open>await client.exec({query})\<close>\<close>
  "client_exec W q s =
     (case client s of
        None \<Rightarrow> (Inl ''TypeError: Cannot read properties of null'', s)
      | Some cfg \<Rightarrow>
          (case store_run W (db s) cfg q of
             Inl err \<Rightarrow> (Inl err, log_event (Exec cfg q) s)
           | Inr (rows, db') \<Rightarrow> (Inr (), (log_event (Exec cfg q) s)\<lparr>db := db'\<rparr>)))"

section \<open>Connection handling\<close>

datatype response =
    Connected  \<comment> \<open>200, success\<close>
  | ConnectFailed string  \<comment> \<open>500 with the driver's message\<close>
  | NotConnected  \<comment> \<open>400\<close>
  | PreviewRows "jsobject list"  \<comment> \<open>200\<close>
  | PreviewFailed  \<comment> \<open>500\<close>
  | NoFilePath  \<comment> \<open>400\<close>
  | NoTargetTable  \<comment> \<open>400\<close>
  | InvalidCombination  \<comment> \<open>400\<close>
  | IngestDone nat string "string option"  \<comment> \<open>200: records, message, filePath\<close>
  | IngestFailed string  \<comment> \<open>500 with the error's message\<close>
  | FileNotFound  \<comment> \<open>404\<close>
  | Download string  \<comment> \<open>\<^verbatim>\<open>res.download\<close> of this path\<close>
  | NoResponse string  \<comment> \<open>an error event nobody listens to: no response is sent\<close>

definition clean_host :: "string \<Rightarrow> string" where
  "clean_host host =
     (let cleanHost = js_trim host
      in if startsWith cleanHost ''https://'' \<or> startsWith cleanHost ''http://''
         then replace_first ''http://'' [] (replace_first ''https://'' [] cleanHost)
         else cleanHost)"

definition make_config :: "string \<Rightarrow> string \<Rightarrow> string \<Rightarrow> string \<Rightarrow> string \<Rightarrow> connection_config" where
  "make_config host port dbname user pass =
     \<lparr>url = ''https://'' @ clean_host host @ '':'' @ port,
      username = user, password = pass, database = dbname\<rparr>"

definition create_client ::
  "'db world \<Rightarrow> connection_config \<Rightarrow> 'db server \<Rightarrow> (string + unit) \<times> 'db server" where
  \<comment> \<open>\<^verbatim>\<open>client = createClient(cfg)\<close>: when the constructor throws, nothing is assigned\<close>
  "create_client W cfg s =
     (case create_client_throws W cfg of
        Some err \<Rightarrow> (Inl err, log_event (CreateClient cfg) s)
      | None \<Rightarrow> (Inr (), (log_event (CreateClient cfg) s)\<lparr>client := Some cfg\<rparr>))"

definition connect ::
  "'db world \<Rightarrow> string \<Rightarrow> string \<Rightarrow> string \<Rightarrow> string \<Rightarrow> string \<Rightarrow> 'db server \<Rightarrow>
   response \<times> 'db server" where
  "connect W host port dbname user pass s =
     (let cfg = make_config host port dbname user pass;
          s1 = s\<lparr>connectionConfig := Some cfg\<rparr>
      in case create_client W cfg s1 of
           (Inl err, s2) \<Rightarrow> (ConnectFailed err, s2\<lparr>client := None\<rparr>)
         | (Inr _, s2) \<Rightarrow>
             (case client_query W ''SELECT 1'' s2 of
                (Inl err, s3) \<Rightarrow> (ConnectFailed err, s3\<lparr>client := None\<rparr>)
              | (Inr data, s3) \<Rightarrow> (Connected, s3)))"

definition connect_v1 ::
  "'db world \<Rightarrow> string \<Rightarrow> string \<Rightarrow> string \<Rightarrow> string \<Rightarrow> string \<Rightarrow> 'db server \<Rightarrow>
   response \<times> 'db server" where
  \<comment> \<open>the connect handler of the earlier revision of the server file: it keeps no
      configuration and its \<^verbatim>\<open>catch\<close> block leaves the client as it is\<close>
  "connect_v1 W host port dbname user pass s =
     (let cfg = make_config host port dbname user pass
      in case create_client W cfg s of
           (Inl err, s1) \<Rightarrow> (ConnectFailed err, s1)
         | (Inr _, s1) \<Rightarrow>
             (case client_query W ''SELECT 1'' s1 of
                (Inl err, s2) \<Rightarrow> (ConnectFailed err, s2)
              | (Inr data, s2) \<Rightarrow> (Connected, s2)))"

definition orphan_query :: "'db world \<Rightarrow> string \<Rightarrow> 'db server \<Rightarrow> 'db server" where
  \<comment> \<open>a call of \<^verbatim>\<open>client.query\<close> whose promise is dropped: the statement reaches the
      store, its rows are never read, and its failure is a rejection nobody handles\<close>
  "orphan_query W q s =
     (case client s of
        None \<Rightarrow> s
      | Some cfg \<Rightarrow>
          (case store_run W (db s) cfg q of
             Inl err \<Rightarrow> (log_event (Query cfg q) s)\<lparr>unhandled := unhandled s @ [err]\<rparr>
           | Inr (rows, db') \<Rightarrow> (log_event (Query cfg q) s)\<lparr>db := db'\<rparr>))"

text \<open>
  The reconnect branch of \<^verbatim>\<open>ensureConnection\<close> reads
  \<^verbatim>\<open>await client.query({query: "SELECT 1", format: "JSONEachRow"}).json()\<close>.
  The member call binds tighter than \<^verbatim>\<open>await\<close>: \<^verbatim>\<open>json\<close> is looked up on the promise that
  \<^verbatim>\<open>client.query\<close> returns, is undefined there, and calling it throws a type error inside
  the \<^verbatim>\<open>try\<close> block.  So after the client is constructed and the query is sent, control
  always reaches the \<^verbatim>\<open>catch\<close> block, which clears the client and returns false; the
  lines that log the success and return true are never reached.  The connect handler
  awaits the query first and calls \<^verbatim>\<open>json\<close> on its result.
\<close>

definition ensureConnection :: "'db world \<Rightarrow> 'db server \<Rightarrow> bool \<times> 'db server" where
  "ensureConnection W s =
     (case (client s, connectionConfig s) of
        (None, Some cfg) \<Rightarrow>
          (case create_client W cfg s of
             (Inl err, s1) \<Rightarrow> (False, s1\<lparr>client := None\<rparr>)
           | (Inr _, s1) \<Rightarrow> (False, (orphan_query W ''SELECT 1'' s1)\<lparr>client := None\<rparr>))
      | _ \<Rightarrow> (client s \<noteq> None, s))"

section \<open>Schema inspection: the preview handler\<close>

definition projection :: "string list \<Rightarrow> string" where
  \<comment> \<open>\<^verbatim>\<open>columns.length > 0 ? columns.join(", ") : "*"\<close>\<close>
  "projection cols = (if length cols > 0 then join '', '' cols else ''*'')"

definition preview ::
  "'db world \<Rightarrow> string \<Rightarrow> string list \<Rightarrow> 'db server \<Rightarrow> response \<times> 'db server" where
  "preview W table cols s =
     (case ensureConnection W s of
        (False, s1) \<Rightarrow> (NotConnected, s1)
      | (True, s1) \<Rightarrow>
          (let columnsStr = projection cols
           in case client_query W (''SELECT '' @ columnsStr @ '' FROM '' @ table @ '' LIMIT 100'') s1 of
                (Inl err, s2) \<Rightarrow> (PreviewFailed, s2)
              | (Inr rows, s2) \<Rightarrow> (PreviewRows rows, s2)))"

section \<open>The row transfer engine\<close>

datatype failure =
    Rejected string  \<comment> \<open>an exception or a rejected promise with this message\<close>
  | Unhandled string  \<comment> \<open>an error event on a stream that has no listener\<close>

datatype transfer_result =
  TransferResult (recordCount: nat) (resultFilePath: "string option") (message: string)

definition or_default :: "string option \<Rightarrow> string \<Rightarrow> string" where
  \<comment> \<open>\<^verbatim>\<open>x || d\<close> on an optional string: absent and empty are both falsy\<close>
  "or_default x d = (case x of None \<Rightarrow> d | Some v \<Rightarrow> if v = [] then d else v)"

subsection \<open>Store to file\<close>

definition table_projection :: "(string \<rightharpoonup> string list) \<Rightarrow> string \<Rightarrow> string + string" where
  \<comment> \<open>\<^verbatim>\<open>tableColumns = columns[table] || []\<close>, then
      \<^verbatim>\<open>tableColumns.length > 0 ? tableColumns.join(", ") : "*"\<close>.  The map holds the own
      entries of \<^verbatim>\<open>columns\<close>; for a table without one, the read finds an inherited member
      when the table is named like one, and a function with parameters has no \<^verbatim>\<open>join\<close>\<close>
  "table_projection cols table =
     (case cols table of
        Some tableColumns \<Rightarrow> Inr (projection tableColumns)
      | None \<Rightarrow>
          (case object_prototype table of
             Some (NativeFunction name n) \<Rightarrow>
               if n > 0 then Inl ''tableColumns.join is not a function'' else Inr ''*''
           | _ \<Rightarrow> Inr ''*''))"

fun export_tables ::
  "'db world \<Rightarrow> (string \<rightharpoonup> string list) \<Rightarrow> string list \<Rightarrow> jsobject list \<Rightarrow> nat \<Rightarrow> 'db server \<Rightarrow>
   (string + jsobject list \<times> nat) \<times> 'db server" where
  \<comment> \<open>the loop over \<^verbatim>\<open>tables\<close>, with the accumulators \<^verbatim>\<open>results\<close> and \<^verbatim>\<open>recordCount\<close>\<close>
  "export_tables W cols [] results count s = (Inr (results, count), s)"
| "export_tables W cols (table # tables) results count s =
     (case table_projection cols table of
        Inl err \<Rightarrow> (Inl err, s)
      | Inr columnsStr \<Rightarrow>
          (case client_query W (''SELECT '' @ columnsStr @ '' FROM '' @ table) s of
             (Inl err, s1) \<Rightarrow> (Inl err, s1)
           | (Inr rows, s1) \<Rightarrow>
               export_tables W cols tables (results @ rows) (count + length rows) s1))"

definition ensure_dir :: "string \<Rightarrow> 'db server \<Rightarrow> 'db server" where
  \<comment> \<open>\<^verbatim>\<open>if (!fs.existsSync(dirPath)) fs.mkdirSync(dirPath)\<close>; the directory of the script
      exists, so creating a directory in it succeeds\<close>
  "ensure_dir dirPath s =
     (let s1 = log_event (FsExists dirPath) s
      in if disk s1 dirPath = None
         then (log_event (FsMkdir dirPath) s1)\<lparr>disk := (disk s1)(dirPath \<mapsto> Directory)\<rparr>
         else s1)"

text \<open>
  The object writer of the \<^verbatim>\<open>csv-writer\<close> package, called with a header of \<^verbatim>\<open>{id, title}\<close>
  pairs: the first line holds the titles, and the line of a record holds, for each header
  entry in turn, the text of \<^verbatim>\<open>record[id]\<close>, or nothing when that is undefined.  Fields of
  a record that the header does not name are not looked at.  Writing to
  a path that is a directory fails; any other write creates or replaces the file.  Cells
  are kept as they are: the quoting of a cell that contains the delimiter is not modelled.
  The handler does not pass its \<^verbatim>\<open>delimiter\<close> argument on to the writer.
\<close>

definition csv_cells :: "(string \<times> string) list \<Rightarrow> jsobject \<Rightarrow> string list" where
  "csv_cells header record =
     map (\<lambda>field. case js_get record (fst field) of None \<Rightarrow> [] | Some v \<Rightarrow> v) header"

definition csv_lines :: "(string \<times> string) list \<Rightarrow> jsobject list \<Rightarrow> string list list" where
  "csv_lines header records = map snd header # map (csv_cells header) records"

definition writeRecords ::
  "string \<Rightarrow> (string \<times> string) list \<Rightarrow> jsobject list \<Rightarrow> 'db server \<Rightarrow> (string + unit) \<times> 'db server" where
  "writeRecords path header records s =
     (case disk s path of
        Some Directory \<Rightarrow>
          (Inl ''EISDIR: illegal operation on a directory'', log_event (FsWrite path) s)
      | _ \<Rightarrow>
          (Inr (), (log_event (FsWrite path) s)\<lparr>disk := (disk s)(path \<mapsto> CsvFile (csv_lines header records))\<rparr>))"

definition clickhouseToFlatFile ::
  "'db world \<Rightarrow> string list \<Rightarrow> (string \<rightharpoonup> string list) \<Rightarrow> string option \<Rightarrow> string \<Rightarrow> 'db server \<Rightarrow>
   (failure + transfer_result) \<times> 'db server" where
  "clickhouseToFlatFile W tables cols targetFile delimiter s =
     (case ensureConnection W s of
        (False, s1) \<Rightarrow> (Inl (Rejected ''Not connected to ClickHouse. Please connect first.''), s1)
      | (True, s1) \<Rightarrow>
          (case export_tables W cols tables [] 0 s1 of
             (Inl err, s2) \<Rightarrow> (Inl (Rejected err), s2)
           | (Inr (results, count), s2) \<Rightarrow>
               (case results of
                  [] \<Rightarrow> (Inr (TransferResult 0 None ''No records found to export''), s2)
                | first # rest \<Rightarrow>
                    (let dirPath = path_join (dirname W) ''exports'';
                         s3 = ensure_dir dirPath s2;
                         safeFileName = basename (or_default targetFile ''export.csv'');
                         filePath = path_join dirPath safeFileName;
                         header = map (\<lambda>key. (key, key)) (object_keys first)
                     in case writeRecords filePath header results s3 of
                          (Inl err, s4) \<Rightarrow> (Inl (Rejected err), s4)
                        | (Inr _, s4) \<Rightarrow>
                            (Inr (TransferResult count (Some safeFileName)
                                   (''Successfully exported '' @ show_nat count @
                                    '' records to '' @ safeFileName)), s4)))))"

subsection \<open>File to store\<close>

definition create_table_query :: "string \<Rightarrow> jsobject \<Rightarrow> string" where
  \<comment> \<open>the template literal of the source, with its line breaks and indentation\<close>
  "create_table_query targetTable firstRow =
     (let cols = object_keys firstRow;
          columnDefs = join '', '' (map (\<lambda>col. col @ '' String'') cols)
      in [CHR 0x0A] @ ''              CREATE TABLE IF NOT EXISTS '' @ targetTable @ '' ('' @
         [CHR 0x0A] @ ''                '' @ columnDefs @
         [CHR 0x0A] @ ''              ) ENGINE = MergeTree()'' @
         [CHR 0x0A] @ ''              ORDER BY tuple()'' @
         [CHR 0x0A] @ ''            '')"

definition insert_query :: "string \<Rightarrow> jsobject \<Rightarrow> string" where
  "insert_query targetTable row =
     (let columnNames = join '', '' (object_keys row);
          vals = join '', '' (map (\<lambda>val. [CHR 0x27] @ escape_quotes val @ [CHR 0x27]) (object_values row))
      in ''INSERT INTO '' @ targetTable @ '' ('' @ columnNames @ '') VALUES ('' @ vals @ '')'')"

fun insert_rows ::
  "'db world \<Rightarrow> string \<Rightarrow> jsobject list \<Rightarrow> 'db server \<Rightarrow> (string + unit) \<times> 'db server" where
  \<comment> \<open>\<^verbatim>\<open>for (const row of rows) await client.exec(...)\<close>: the first exception leaves the loop\<close>
  "insert_rows W targetTable [] s = (Inr (), s)"
| "insert_rows W targetTable (row # rows) s =
     (case client_exec W (insert_query targetTable row) s of
        (Inl err, s1) \<Rightarrow> (Inl err, s1)
      | (Inr _, s1) \<Rightarrow> insert_rows W targetTable rows s1)"

definition read_rows ::
  "'db world \<Rightarrow> string \<Rightarrow> string \<Rightarrow> 'db server \<Rightarrow> (failure + jsobject list) \<times> 'db server" where
  \<comment> \<open>\<^verbatim>\<open>fs.createReadStream(filePath).pipe(csv({separator}))\<close>: the error listener sits on
      the parser, so a failure to open the file reaches no listener\<close>
  "read_rows W filePath delimiter s =
     (let s1 = log_event (FsRead filePath) s
      in case disk s1 filePath of
           None \<Rightarrow> (Inl (Unhandled ''ENOENT: no such file or directory''), s1)
         | Some Directory \<Rightarrow> (Inl (Unhandled ''EISDIR: illegal operation on a directory''), s1)
         | Some (CsvFile content) \<Rightarrow>
             (case parse_csv W delimiter content of
                Inl err \<Rightarrow> (Inl (Rejected err), s1)
              | Inr rows \<Rightarrow> (Inr rows, s1)))"

definition flatFileToClickhouse ::
  "'db world \<Rightarrow> string \<Rightarrow> string \<Rightarrow> string \<Rightarrow> 'db server \<Rightarrow>
   (failure + transfer_result) \<times> 'db server" where
  "flatFileToClickhouse W filePath targetTable delimiter s =
     (case ensureConnection W s of
        (False, s1) \<Rightarrow> (Inl (Rejected ''Not connected to ClickHouse. Please connect first.''), s1)
      | (True, s1) \<Rightarrow>
          (case read_rows W filePath delimiter s1 of
             (Inl err, s2) \<Rightarrow> (Inl err, s2)
           | (Inr rows, s2) \<Rightarrow>
               (case rows of
                  [] \<Rightarrow> (Inr (TransferResult 0 None ''No records found in file''), s2)
                | first # rest \<Rightarrow>
                    (case client_exec W (create_table_query targetTable first) s2 of
                       (Inl err, s3) \<Rightarrow> (Inl (Rejected err), s3)
                     | (Inr _, s3) \<Rightarrow>
                         (case insert_rows W targetTable rows s3 of
                            (Inl err, s4) \<Rightarrow> (Inl (Rejected err), s4)
                          | (Inr _, s4) \<Rightarrow>
                              (Inr (TransferResult (length rows) None
                                     (''Successfully imported '' @ show_nat (length rows) @
                                      '' records to '' @ targetTable)), s4))))))"

section \<open>The ingest and download handlers\<close>

record ingest_request =
  source :: "string option"
  target :: "string option"
  tables :: "string list"
  columns :: "string \<rightharpoonup> string list"
  filePath :: "string option"
  targetFile :: "string option"
  targetTable :: "string option"
  delimiter :: "string option"

definition respond :: "(failure + transfer_result) \<times> 'db server \<Rightarrow> response \<times> 'db server" where
  \<comment> \<open>the success response and the \<^verbatim>\<open>catch\<close> block of the ingest handler\<close>
  "respond out =
     (case out of
        (Inl (Rejected msg), s) \<Rightarrow> (IngestFailed msg, s)
      | (Inl (Unhandled msg), s) \<Rightarrow> (NoResponse msg, s)
      | (Inr result, s) \<Rightarrow>
          (IngestDone (recordCount result) (message result)
             (case resultFilePath result of
                None \<Rightarrow> None
              | Some f \<Rightarrow> if f = [] then None else Some f), s))"

definition ingest :: "'db world \<Rightarrow> ingest_request \<Rightarrow> 'db server \<Rightarrow> response \<times> 'db server" where
  "ingest W r s =
     (let delim = (case delimiter r of None \<Rightarrow> '','' | Some d \<Rightarrow> d);
          checked =
            (if source r = Some ''clickhouse'' \<or> target r = Some ''clickhouse''
             then ensureConnection W s else (True, s))
      in case checked of
           (False, s1) \<Rightarrow> (NotConnected, s1)
         | (True, s1) \<Rightarrow>
             (if source r = Some ''clickhouse'' \<and> target r = Some ''flatfile''
              then respond (clickhouseToFlatFile W (tables r) (columns r) (targetFile r) delim s1)
              else if source r = Some ''flatfile'' \<and> target r = Some ''clickhouse''
              then (case filePath r of
                      None \<Rightarrow> (NoFilePath, s1)
                    | Some fp \<Rightarrow>
                        if fp = [] then (NoFilePath, s1)
                        else (case targetTable r of
                                None \<Rightarrow> (NoTargetTable, s1)
                              | Some tt \<Rightarrow>
                                  if tt = [] then (NoTargetTable, s1)
                                  else respond (flatFileToClickhouse W fp tt delim s1)))
              else (InvalidCombination, s1)))"

definition download :: "'db world \<Rightarrow> string \<Rightarrow> 'db server \<Rightarrow> response \<times> 'db server" where
  "download W filename s =
     (let safeFilename = basename filename;
          filePath = path_join (path_join (dirname W) ''exports'') safeFilename;
          s1 = log_event (FsExists filePath) s
      in if disk s1 filePath = None then (FileNotFound, s1)
         else (Download filePath, log_event (FsDownload filePath) s1))"

section \<open>Repeated calls and sample environments\<close>

fun ensure_repeat :: "'db world \<Rightarrow> nat \<Rightarrow> 'db server \<Rightarrow> bool list \<times> 'db server" where
  \<comment> \<open>\<open>n\<close> calls of \<^verbatim>\<open>ensureConnection\<close> in a row, with the answers collected\<close>
  "ensure_repeat W 0 s = ([], s)"
| "ensure_repeat W (Suc n) s =
     (case ensureConnection W s of
        (ok, s1) \<Rightarrow> (case ensure_repeat W n s1 of (oks, s2) \<Rightarrow> (ok # oks, s2)))"

definition is_fs_event :: "io_event \<Rightarrow> bool" where
  "is_fs_event e =
     (case e of FsExists p \<Rightarrow> True | FsMkdir p \<Rightarrow> True | FsRead p \<Rightarrow> True
      | FsWrite p \<Rightarrow> True | FsDownload p \<Rightarrow> True | _ \<Rightarrow> False)"

definition valid_direction :: "string option \<Rightarrow> string option \<Rightarrow> bool" where
  "valid_direction src tgt =
     ((src = Some ''clickhouse'' \<and> tgt = Some ''flatfile'') \<or>
      (src = Some ''flatfile'' \<and> tgt = Some ''clickhouse''))"

text \<open>
  A small store for running the handlers on concrete requests.  Its contents are the list
  of statements it has accepted.  It is unreachable under one URL, rejects one chosen
  statement, answers the liveness query with one row and every other \<^verbatim>\<open>SELECT\<close> with the
  given rows.  The sample parser reads the first line as the header.
\<close>

definition demo_store ::
  "jsobject list \<Rightarrow> string \<Rightarrow> string list \<Rightarrow> connection_config \<Rightarrow> string \<Rightarrow>
   string + (jsobject list \<times> string list)" where
  "demo_store rows bad d cfg q =
     (if url cfg = ''https://down:8443'' then Inl ''connect ECONNREFUSED''
      else if q = bad then Inl ''Code: 62. Syntax error''
      else if q = ''SELECT 1'' then Inr ([[(''1'', ''1'')]], d)
      else if startsWith q ''SELECT '' then Inr (rows, d)
      else Inr ([], d @ [q]))"

fun before_comment :: "string \<Rightarrow> string" where
  \<comment> \<open>the part of a statement in front of the first \<^verbatim>\<open>--\<close>, which starts a comment\<close>
  "before_comment [] = []"
| "before_comment (c # cs) = (if startsWith (c # cs) ''--'' then [] else c # before_comment cs)"

definition numbers :: "nat \<Rightarrow> jsobject list" where
  \<comment> \<open>the rows of the table function \<^verbatim>\<open>numbers(n)\<close>\<close>
  "numbers n = map (\<lambda>i. [(''number'', show_nat i)]) [0 ..< n]"

definition limit_store ::
  "jsobject list \<Rightarrow> unit \<Rightarrow> connection_config \<Rightarrow> string \<Rightarrow> string + (jsobject list \<times> unit)" where
  \<comment> \<open>a store that applies a closing \<^verbatim>\<open>LIMIT 100\<close> of the statement it parses, comments
      left out, to the rows of its one table\<close>
  "limit_store rows d cfg q =
     (let stmt = js_trim (before_comment q)
      in if drop (length stmt - 10) stmt = '' LIMIT 100'' then Inr (take 100 rows, d)
         else Inr (rows, d))"

definition limit_world :: "jsobject list \<Rightarrow> unit world" where
  "limit_world rows =
     \<lparr>dirname = ''/srv/app'', create_client_throws = (\<lambda>cfg. None),
      store_run = limit_store rows, parse_csv = (\<lambda>sep content. Inr [])\<rparr>"

definition limit_server :: "unit server" where
  "limit_server =
     \<lparr>client = Some (make_config ''localhost'' ''8443'' ''default'' ''default'' ''secret''),
      connectionConfig = Some (make_config ''localhost'' ''8443'' ''default'' ''default'' ''secret''),
      db = (), disk = Map.empty, trace = [], unhandled = []\<rparr>"

definition demo_parse :: "string \<Rightarrow> string list list \<Rightarrow> string + jsobject list" where
  "demo_parse sep content =
     (case content of [] \<Rightarrow> Inr [] | header # lines \<Rightarrow> Inr (map (zip header) lines))"

definition demo_world :: "jsobject list \<Rightarrow> string \<Rightarrow> string list world" where
  "demo_world rows bad =
     \<lparr>dirname = ''/srv/app'', create_client_throws = (\<lambda>cfg. None),
      store_run = demo_store rows bad, parse_csv = demo_parse\<rparr>"

definition demo_config :: connection_config where
  "demo_config = make_config ''localhost'' ''8443'' ''default'' ''default'' ''secret''"

definition down_config :: connection_config where
  "down_config = make_config ''http://down'' ''8443'' ''default'' ''default'' ''secret''"

definition demo_disk :: "string \<rightharpoonup> file_node" where
  "demo_disk =
     [''/srv/app'' \<mapsto> Directory,
      ''/srv/app/uploads/people.csv'' \<mapsto>
        CsvFile [[''name'', ''age''], [''Alice'', ''30''], [''Bob'', ''25''], [''Carol'', ''41'']]]"

definition demo_server ::
  "connection_config option \<Rightarrow> connection_config option \<Rightarrow> string list server" where
  "demo_server cl cfg =
     \<lparr>client = cl, connectionConfig = cfg, db = [], disk = demo_disk, trace = [], unhandled = []\<rparr>"

definition demo_request :: "string option \<Rightarrow> string option \<Rightarrow> string option \<Rightarrow> ingest_request" where
  "demo_request src tgt file =
     \<lparr>source = src, target = tgt, tables = [''people''], columns = Map.empty,
      filePath = Some ''/srv/app/uploads/people.csv'', targetFile = file,
      targetTable = Some ''t1'', delimiter = None\<rparr>"

definition plain_segment :: "string \<Rightarrow> bool" where
  \<comment> \<open>a path segment that names an entry of a directory\<close>
  "plain_segment seg = (seg \<noteq> [] \<and> seg \<noteq> ''.'' \<and> seg \<noteq> ''..'' \<and> CHR ''/'' \<notin> set seg)"

section \<open>Basic facts about the connection manager\<close>

lemma client_query_live:
  "client s = Some cfg \<Longrightarrow>
   client_query W q s =
     (case store_run W (db s) cfg q of
        Inl err \<Rightarrow> (Inl err, s\<lparr>trace := trace s @ [Query cfg q]\<rparr>)
      | Inr (rows, db') \<Rightarrow> (Inr rows, s\<lparr>db := db', trace := trace s @ [Query cfg q]\<rparr>))"
  by (simp add: client_query_def log_event_def split: sum.splits prod.splits)

lemma client_exec_live:
  "client s = Some cfg \<Longrightarrow>
   client_exec W q s =
     (case store_run W (db s) cfg q of
        Inl err \<Rightarrow> (Inl err, s\<lparr>trace := trace s @ [Exec cfg q]\<rparr>)
      | Inr (rows, db') \<Rightarrow> (Inr (), s\<lparr>db := db', trace := trace s @ [Exec cfg q]\<rparr>))"
  by (simp add: client_exec_def log_event_def split: sum.splits prod.splits)

lemma ensure_live: "client s = Some cfg \<Longrightarrow> ensureConnection W s = (True, s)"
  by (simp add: ensureConnection_def)

lemma ensure_no_config:
  "client s = None \<Longrightarrow> connectionConfig s = None \<Longrightarrow> ensureConnection W s = (False, s)"
  by (simp add: ensureConnection_def)

lemma ensure_reconnect:
  "client s = None \<Longrightarrow> connectionConfig s = Some cfg \<Longrightarrow>
   ensureConnection W s =
     (case create_client_throws W cfg of
        Some err \<Rightarrow> (False, s\<lparr>client := None, trace := trace s @ [CreateClient cfg]\<rparr>)
      | None \<Rightarrow>
          (case store_run W (db s) cfg ''SELECT 1'' of
             Inl err \<Rightarrow>
               (False, s\<lparr>client := None, trace := trace s @ [CreateClient cfg, Query cfg ''SELECT 1''],
                        unhandled := unhandled s @ [err]\<rparr>)
           | Inr (rows, db') \<Rightarrow>
               (False, s\<lparr>client := None, db := db',
                        trace := trace s @ [CreateClient cfg, Query cfg ''SELECT 1'']\<rparr>)))"
  by (simp add: ensureConnection_def create_client_def orphan_query_def log_event_def
           split: option.splits sum.splits prod.splits)

lemma ensure_reconnect_fails:
  assumes "client s = None" and "connectionConfig s = Some cfg"
  shows "\<not> fst (ensureConnection W s)" and "client (snd (ensureConnection W s)) = None"
    and "connectionConfig (snd (ensureConnection W s)) = Some cfg"
  using assms by (simp_all add: ensure_reconnect split: option.splits sum.splits prod.splits)

lemma connect_config: "connectionConfig (snd (connect W h p d u pw s)) = Some (make_config h p d u pw)"
  by (simp add: connect_def create_client_def client_query_def log_event_def Let_def
           split: option.splits sum.splits prod.splits)

lemma connect_client:
  "client (snd (connect W h p d u pw s)) =
     (if fst (connect W h p d u pw s) = Connected then Some (make_config h p d u pw) else None)"
  by (simp add: connect_def create_client_def client_query_def log_event_def Let_def
           split: option.splits sum.splits prod.splits)

lemma ensure_repeat_live: "client s = Some cfg \<Longrightarrow> ensure_repeat W n s = (replicate n True, s)"
  by (induction n) (simp_all add: ensure_live)

lemma demo_url: "url demo_config = ''https://localhost:8443''"
  by (simp add: demo_config_def make_config_def clean_host_def js_trim_def is_js_space_def startsWith_def)

lemma down_url: "url down_config = ''https://down:8443''"
  by (simp add: down_config_def make_config_def clean_host_def js_trim_def is_js_space_def startsWith_def)

lemmas demo_simps = demo_world_def demo_server_def demo_store_def demo_url down_url startsWith_def

section \<open>The connection manager\<close>

lemma ensure_after_connect:
  assumes "fst (connect W host port dbname user pass s) = Connected"
  shows "ensure_repeat W n (snd (connect W host port dbname user pass s)) =
           (replicate n True, snd (connect W host port dbname user pass s))"
proof -
  from assms have "client (snd (connect W host port dbname user pass s)) =
      Some (make_config host port dbname user pass)"
    by (simp add: connect_client)
  then show ?thesis by (rule ensure_repeat_live)
qed

text \<open>
  Claim C6 at a state without a client, with a stored configuration, and with a store
  that answers the liveness query.  \<^verbatim>\<open>ensureConnection\<close> constructs one client and sends
  one liveness query, as the claim says, but then answers false and leaves the client
  absent although nothing has failed at the store: the reconnect can never succeed.  The
  other parts of the claim hold (\<open>ensure_live\<close>, \<open>ensure_no_config\<close>,
  \<open>ensure_reconnect\<close>, \<open>ensure_after_connect\<close>).
\<close>

theorem reconnect_fails_on_reachable_store:
  "client (demo_server None (Some demo_config)) = None \<and>
   connectionConfig (demo_server None (Some demo_config)) = Some demo_config \<and>
   store_run (demo_world [] []) (db (demo_server None (Some demo_config))) demo_config ''SELECT 1'' =
     Inr ([[(''1'', ''1'')]], []) \<and>
   \<not> fst (ensureConnection (demo_world [] []) (demo_server None (Some demo_config))) \<and>
   client (snd (ensureConnection (demo_world [] []) (demo_server None (Some demo_config)))) = None \<and>
   trace (snd (ensureConnection (demo_world [] []) (demo_server None (Some demo_config)))) =
     [CreateClient demo_config, Query demo_config ''SELECT 1''] \<and>
   unhandled (snd (ensureConnection (demo_world [] []) (demo_server None (Some demo_config)))) = []"
proof -
  have s: "client (demo_server None (Some demo_config)) = None"
    "connectionConfig (demo_server None (Some demo_config)) = Some demo_config"
    "db (demo_server None (Some demo_config)) = []"
    "trace (demo_server None (Some demo_config)) = []"
    "unhandled (demo_server None (Some demo_config)) = []"
    by (simp_all add: demo_server_def)
  have r: "store_run (demo_world [] []) [] demo_config ''SELECT 1'' = Inr ([[(''1'', ''1'')]], [])"
    by (simp add: demo_world_def demo_store_def demo_url)
  have t: "create_client_throws (demo_world [] []) demo_config = None"
    by (simp add: demo_world_def)
  show ?thesis
    using s r t by (simp add: ensure_reconnect [OF s(1,2)])
qed

section \<open>The connect handler\<close>

lemma connect_trace:
  "\<exists>evs. trace (snd (connect W h p d u pw s)) = trace s @ CreateClient (make_config h p d u pw) # evs"
  by (simp add: connect_def create_client_def client_query_def log_event_def Let_def
           split: option.splits sum.splits prod.splits)

lemma connect_v1_trace:
  "\<exists>evs. trace (snd (connect_v1 W h p d u pw s)) = trace s @ CreateClient (make_config h p d u pw) # evs"
  by (simp add: connect_v1_def create_client_def client_query_def log_event_def Let_def
           split: option.splits sum.splits prod.splits)

lemma ensure_retry_trace:
  "client s = None \<Longrightarrow> connectionConfig s = Some cfg \<Longrightarrow>
   \<exists>evs. trace (snd (ensureConnection W s)) = trace s @ CreateClient cfg # evs"
  by (simp add: ensure_reconnect split: option.splits sum.splits prod.splits)

lemma replace_first_absent:
  "c \<in> set pat \<Longrightarrow> c \<notin> set str \<Longrightarrow> replace_first pat rep str = str"
proof (induction str)
  case Nil
  then show ?case by auto
next
  case (Cons x xs)
  have "take (length pat) (x # xs) \<noteq> pat"
  proof
    assume "take (length pat) (x # xs) = pat"
    then have "set pat \<subseteq> set (x # xs)" by (metis set_take_subset)
    with Cons.prems show False by auto
  qed
  with Cons show ?case by simp
qed

lemma dropWhile_unchanged:
  "xs \<noteq> [] \<Longrightarrow> \<not> P (hd xs) \<Longrightarrow> dropWhile P (xs @ ys) = xs @ ys"
  by (cases xs) auto

lemma js_trim_http:
  assumes "h = [] \<or> \<not> is_js_space (last h)"
  shows "js_trim (''http://'' @ h) = ''http://'' @ h"
proof -
  have 1: "dropWhile is_js_space (''http://'' @ h) = ''http://'' @ h"
    by (simp add: is_js_space_def)
  have 2: "dropWhile is_js_space (rev (''http://'' @ h)) = rev (''http://'' @ h)"
  proof (cases "h = []")
    case True
    then show ?thesis by (simp add: is_js_space_def)
  next
    case False
    with assms have "\<not> is_js_space (last h)" by simp
    moreover from False have "rev h \<noteq> []" and "hd (rev h) = last h"
      by (simp_all add: hd_rev)
    ultimately have "dropWhile is_js_space (rev h @ rev ''http://'') = rev h @ rev ''http://''"
      by (intro dropWhile_unchanged) simp_all
    then show ?thesis by simp
  qed
  show ?thesis unfolding js_trim_def 1 2 by simp
qed

lemma clean_host_http:
  assumes "CHR '':'' \<notin> set h" and "h = [] \<or> \<not> is_js_space (last h)"
  shows "clean_host (''http://'' @ h) = h"
proof -
  have "replace_first ''https://'' [] h = h"
    using assms(1) by (intro replace_first_absent [where c = "CHR '':''"]) simp_all
  then have "replace_first ''https://'' [] (''http://'' @ h) = ''http://'' @ h"
    by simp
  moreover have "replace_first ''http://'' [] (''http://'' @ h) = h"
    by simp
  ultimately show ?thesis
    using js_trim_http [OF assms(2)] by (simp add: clean_host_def startsWith_def)
qed

text \<open>
  Claim C10.  The URL handed to \<^verbatim>\<open>createClient\<close> by the connect handler is always
  \<^verbatim>\<open>https://\<close>, then the cleaned host, a colon and the port, whatever scheme the caller
  wrote; the first call that leaves the process is the construction of a client with
  that URL, in the current handler and in the one of the earlier revision alike.  A host
  written as \<^verbatim>\<open>http://h\<close>, where \<open>h\<close> has no colon and does not end in white space, is
  cleaned to \<open>h\<close> and bound to \<^verbatim>\<open>https://h:port\<close>.
\<close>

theorem connect_always_https:
  "url (make_config host port dbname user pass) = ''https://'' @ clean_host host @ '':'' @ port \<and>
   startsWith (url (make_config host port dbname user pass)) ''https://'' \<and>
   (\<exists>evs. trace (snd (connect W host port dbname user pass s)) =
      trace s @ CreateClient (make_config host port dbname user pass) # evs) \<and>
   (\<exists>evs. trace (snd (connect_v1 W host port dbname user pass s)) =
      trace s @ CreateClient (make_config host port dbname user pass) # evs) \<and>
   (CHR '':'' \<notin> set h \<and> (h = [] \<or> \<not> is_js_space (last h)) \<longrightarrow>
      clean_host (''http://'' @ h) = h \<and>
      url (make_config (''http://'' @ h) port dbname user pass) = ''https://'' @ h @ '':'' @ port)"
proof (intro conjI impI)
  show "url (make_config host port dbname user pass) = ''https://'' @ clean_host host @ '':'' @ port"
    by (simp add: make_config_def)
  show "startsWith (url (make_config host port dbname user pass)) ''https://''"
    by (simp add: make_config_def startsWith_def)
  show "\<exists>evs. trace (snd (connect W host port dbname user pass s)) =
      trace s @ CreateClient (make_config host port dbname user pass) # evs"
    by (rule connect_trace)
  show "\<exists>evs. trace (snd (connect_v1 W host port dbname user pass s)) =
      trace s @ CreateClient (make_config host port dbname user pass) # evs"
    by (rule connect_v1_trace)
next
  assume a: "CHR '':'' \<notin> set h \<and> (h = [] \<or> \<not> is_js_space (last h))"
  then show "clean_host (''http://'' @ h) = h" by (intro clean_host_http) simp_all
  with a show "url (make_config (''http://'' @ h) port dbname user pass) = ''https://'' @ h @ '':'' @ port"
    by (simp add: make_config_def)
qed

theorem connect_always_https_witness:
  "clean_host ''http://plain.example'' = ''plain.example'' \<and>
   url (make_config ''http://plain.example'' ''8123'' ''default'' ''default'' ''secret'') =
     ''https://plain.example:8123''"
  using connect_always_https [where h = "''plain.example''" and port = "''8123''"
      and dbname = "''default''" and user = "''default''" and pass = "''secret''"
      and host = "''localhost''" and W = "demo_world [] []" and s = "demo_server None None"]
  by (simp add: is_js_space_def)

text \<open>
  Claim C2, as the code has it.  The connect handler stores the new configuration before
  it constructs the client and runs the liveness query, so after every call the stored
  configuration is the one of this call, whether it succeeded or not.  After a success
  the client is the one made from it.  After a failure the client is absent, and the next
  \<^verbatim>\<open>ensureConnection\<close> reconnects with the configuration of the failed attempt.
\<close>

theorem connect_stores_config:
  "connectionConfig (snd (connect W host port dbname user pass s)) =
     Some (make_config host port dbname user pass) \<and>
   (fst (connect W host port dbname user pass s) = Connected \<longrightarrow>
      client (snd (connect W host port dbname user pass s)) =
        Some (make_config host port dbname user pass)) \<and>
   (fst (connect W host port dbname user pass s) \<noteq> Connected \<longrightarrow>
      client (snd (connect W host port dbname user pass s)) = None \<and>
      (\<exists>evs. trace (snd (ensureConnection W (snd (connect W host port dbname user pass s)))) =
         trace (snd (connect W host port dbname user pass s)) @
         CreateClient (make_config host port dbname user pass) # evs))"
proof (intro conjI impI)
  show c: "connectionConfig (snd (connect W host port dbname user pass s)) =
     Some (make_config host port dbname user pass)"
    by (rule connect_config)
  {
    assume "fst (connect W host port dbname user pass s) = Connected"
    then show "client (snd (connect W host port dbname user pass s)) =
        Some (make_config host port dbname user pass)"
      by (simp add: connect_client)
  }
  {
    assume "fst (connect W host port dbname user pass s) \<noteq> Connected"
    then show n: "client (snd (connect W host port dbname user pass s)) = None"
      by (simp add: connect_client)
    from n c show "\<exists>evs. trace (snd (ensureConnection W (snd (connect W host port dbname user pass s)))) =
         trace (snd (connect W host port dbname user pass s)) @
         CreateClient (make_config host port dbname user pass) # evs"
      by (rule ensure_retry_trace)
  }
qed

lemma demo_connect_down:
  "fst (connect (demo_world [] []) ''http://down'' ''8443'' ''default'' ''default'' ''secret''
          (demo_server (Some demo_config) (Some demo_config))) = ConnectFailed ''connect ECONNREFUSED''"
  by (simp add: connect_def create_client_def client_query_def log_event_def demo_simps
          down_config_def [symmetric])

lemma demo_connect_up:
  "fst (connect (demo_world [] []) ''localhost'' ''8443'' ''default'' ''default'' ''secret''
          (demo_server None None)) = Connected"
  by (simp add: connect_def create_client_def client_query_def log_event_def demo_simps
          demo_config_def [symmetric])

lemma demo_configs_differ: "down_config \<noteq> demo_config"
proof
  assume "down_config = demo_config"
  then have "url down_config = url demo_config" by simp
  then show False by (simp add: demo_url down_url)
qed

theorem connect_stores_config_witness:
  "client (snd (connect (demo_world [] []) ''localhost'' ''8443'' ''default'' ''default'' ''secret''
          (demo_server None None))) = Some demo_config \<and>
   client (snd (connect (demo_world [] []) ''http://down'' ''8443'' ''default'' ''default'' ''secret''
          (demo_server (Some demo_config) (Some demo_config)))) = None \<and>
   connectionConfig (snd (connect (demo_world [] []) ''http://down'' ''8443'' ''default'' ''default'' ''secret''
          (demo_server (Some demo_config) (Some demo_config)))) = Some down_config"
  using demo_connect_up demo_connect_down
    connect_stores_config [where W = "demo_world [] []" and host = "''localhost''" and port = "''8443''"
      and dbname = "''default''" and user = "''default''" and pass = "''secret''"
      and s = "demo_server None None"]
    connect_stores_config [where W = "demo_world [] []" and host = "''http://down''" and port = "''8443''"
      and dbname = "''default''" and user = "''default''" and pass = "''secret''"
      and s = "demo_server (Some demo_config) (Some demo_config)"]
  by (simp add: demo_config_def [symmetric] down_config_def [symmetric])

text \<open>
  Claim C2 as stated fails: with a working configuration stored, a connect to an
  unreachable host fails and leaves the configuration of the failed attempt in place of the
  working one.
\<close>

theorem connect_failure_replaces_config:
  "connectionConfig (demo_server (Some demo_config) (Some demo_config)) = Some demo_config \<and>
   fst (connect (demo_world [] []) ''http://down'' ''8443'' ''default'' ''default'' ''secret''
          (demo_server (Some demo_config) (Some demo_config))) = ConnectFailed ''connect ECONNREFUSED'' \<and>
   connectionConfig (snd (connect (demo_world [] []) ''http://down'' ''8443'' ''default'' ''default'' ''secret''
          (demo_server (Some demo_config) (Some demo_config)))) \<noteq> Some demo_config"
  using demo_connect_down demo_configs_differ
  by (simp add: connect_config down_config_def [symmetric] demo_server_def)

section \<open>The preview handler\<close>

lemma ensure_true_client: "ensureConnection W s = (True, s1) \<Longrightarrow> client s1 \<noteq> None"
  by (auto simp: ensureConnection_def create_client_def orphan_query_def log_event_def
           split: option.splits sum.splits prod.splits)

lemma ensure_disk: "disk (snd (ensureConnection W s)) = disk s"
  by (simp add: ensureConnection_def create_client_def orphan_query_def log_event_def
           split: option.splits sum.splits prod.splits)

lemma ensure_fs_events:
  "filter is_fs_event (trace (snd (ensureConnection W s))) = filter is_fs_event (trace s)"
  by (simp add: ensureConnection_def create_client_def orphan_query_def log_event_def is_fs_event_def
           split: option.splits sum.splits prod.splits)

text \<open>
  Claim C9, as the code has it.  The preview handler answers not-connected, issuing no query of its own, when
  \<^verbatim>\<open>ensureConnection\<close> fails.  Its projection is the literal \<^verbatim>\<open>*\<close> for an empty column
  list and the columns joined by a comma and a space otherwise.  When the connection
  check succeeds it issues exactly one query, \<^verbatim>\<open>SELECT <projection> FROM <table> LIMIT 100\<close>,
  and answers with the rows of the store's reply, in the store's order and unchanged.
  The text ends in \<^verbatim>\<open>LIMIT 100\<close>, but the table and the columns are put into it as they
  come, and the handler does not cut the reply: how many rows come back is for the store
  to decide.
\<close>

theorem preview_behaviour:
  "(\<not> fst (ensureConnection W s) \<longrightarrow>
      preview W table cols s = (NotConnected, snd (ensureConnection W s))) \<and>
   projection [] = ''*'' \<and>
   (cols \<noteq> [] \<longrightarrow> projection cols = join '', '' cols) \<and>
   (fst (ensureConnection W s) \<and> client (snd (ensureConnection W s)) = Some cfg \<longrightarrow>
      trace (snd (preview W table cols s)) =
        trace (snd (ensureConnection W s)) @
        [Query cfg (''SELECT '' @ projection cols @ '' FROM '' @ table @ '' LIMIT 100'')] \<and>
      fst (preview W table cols s) =
        (case store_run W (db (snd (ensureConnection W s))) cfg
                (''SELECT '' @ projection cols @ '' FROM '' @ table @ '' LIMIT 100'') of
           Inl err \<Rightarrow> PreviewFailed
         | Inr (rows, d') \<Rightarrow> PreviewRows rows))"
proof (intro conjI impI)
  assume "\<not> fst (ensureConnection W s)"
  then show "preview W table cols s = (NotConnected, snd (ensureConnection W s))"
    by (cases "ensureConnection W s") (simp add: preview_def)
next
  show "projection [] = ''*''" by (simp add: projection_def)
next
  assume "cols \<noteq> []"
  then show "projection cols = join '', '' cols" by (simp add: projection_def)
next
  assume a: "fst (ensureConnection W s) \<and> client (snd (ensureConnection W s)) = Some cfg"
  obtain s1 where e: "ensureConnection W s = (True, s1)"
    using a by (cases "ensureConnection W s") simp
  with a have c: "client s1 = Some cfg" by simp
  show "trace (snd (preview W table cols s)) =
        trace (snd (ensureConnection W s)) @
        [Query cfg (''SELECT '' @ projection cols @ '' FROM '' @ table @ '' LIMIT 100'')]"
    using e c by (simp add: preview_def client_query_live split: sum.splits prod.splits)
  show "fst (preview W table cols s) =
        (case store_run W (db (snd (ensureConnection W s))) cfg
                (''SELECT '' @ projection cols @ '' FROM '' @ table @ '' LIMIT 100'') of
           Inl err \<Rightarrow> PreviewFailed
         | Inr (rows, d') \<Rightarrow> PreviewRows rows)"
    using e c by (simp add: preview_def client_query_live split: sum.splits prod.splits)
qed

lemma demo_ensure_live:
  "ensureConnection (demo_world rows bad) (demo_server (Some demo_config) cfg) =
     (True, demo_server (Some demo_config) cfg)"
  by (rule ensure_live) (simp add: demo_server_def)

theorem preview_behaviour_witness:
  "preview (demo_world [] []) ''people'' [''name'', ''age''] (demo_server None None) =
     (NotConnected, demo_server None None) \<and>
   trace (snd (preview (demo_world [[(''name'', ''Alice''), (''age'', ''30'')]] []) ''people''
                 [''name'', ''age''] (demo_server (Some demo_config) (Some demo_config)))) =
     [Query demo_config ''SELECT name, age FROM people LIMIT 100''] \<and>
   fst (preview (demo_world [[(''name'', ''Alice''), (''age'', ''30'')]] []) ''people''
                 [''name'', ''age''] (demo_server (Some demo_config) (Some demo_config))) =
     PreviewRows [[(''name'', ''Alice''), (''age'', ''30'')]] \<and>
   trace (snd (preview (demo_world [] []) ''people'' [] (demo_server (Some demo_config) (Some demo_config)))) =
     [Query demo_config ''SELECT * FROM people LIMIT 100'']"
proof -
  let ?W = "demo_world [[(''name'', ''Alice''), (''age'', ''30'')]] []"
  let ?s = "demo_server (Some demo_config) (Some demo_config)"
  have 1: "preview (demo_world [] []) ''people'' [''name'', ''age''] (demo_server None None) =
     (NotConnected, demo_server None None)"
    using preview_behaviour [where W = "demo_world [] []" and s = "demo_server None None"
        and table = "''people''" and cols = "[''name'', ''age'']"
        and cfg = demo_config]
    by (simp add: ensure_no_config demo_server_def)
  have c: "client ?s = Some demo_config" by (simp add: demo_server_def)
  have d: "db ?s = []" "trace ?s = []" by (simp_all add: demo_server_def)
  have e: "ensureConnection ?W ?s = (True, ?s)" "ensureConnection (demo_world [] []) ?s = (True, ?s)"
    by (rule demo_ensure_live)+
  have sr: "store_run ?W [] demo_config ''SELECT name, age FROM people LIMIT 100'' =
      Inr ([[(''name'', ''Alice''), (''age'', ''30'')]], [])"
    by (simp add: demo_world_def demo_store_def demo_url startsWith_def)
  have 2: "trace (snd (preview ?W ''people'' [''name'', ''age''] ?s)) =
     [Query demo_config ''SELECT name, age FROM people LIMIT 100''] \<and>
    fst (preview ?W ''people'' [''name'', ''age''] ?s) =
     PreviewRows [[(''name'', ''Alice''), (''age'', ''30'')]]"
    using preview_behaviour [where W = ?W and s = ?s and cfg = demo_config
        and table = "''people''" and cols = "[''name'', ''age'']"] c d e sr
    by (simp add: projection_def)
  have 3: "trace (snd (preview (demo_world [] []) ''people'' [] ?s)) =
     [Query demo_config ''SELECT * FROM people LIMIT 100'']"
    using preview_behaviour [where W = "demo_world [] []" and s = ?s and cfg = demo_config
        and table = "''people''" and cols = "[]"] c d e
    by simp
  from 1 2 3 show ?thesis by blast
qed

text \<open>
  Claim C9 as stated fails on the number of rows: a table written as \<^verbatim>\<open>numbers(150) --\<close>
  turns the closing \<^verbatim>\<open>LIMIT 100\<close> of the statement into a comment.  A store that applies
  the limit of the statements it parses, and answers the table \<^verbatim>\<open>numbers(150)\<close> with 100
  rows, answers this one with all 150, and the handler passes them on.
\<close>

theorem preview_returns_more_than_100_rows:
  "trace (snd (preview (limit_world (numbers 150)) ''numbers(150) --'' [] limit_server)) =
     [Query (make_config ''localhost'' ''8443'' ''default'' ''default'' ''secret'')
        ''SELECT * FROM numbers(150) -- LIMIT 100''] \<and>
   fst (preview (limit_world (numbers 150)) ''numbers(150) --'' [] limit_server) =
     PreviewRows (numbers 150) \<and>
   length (numbers 150) = 150 \<and>
   fst (preview (limit_world (numbers 150)) ''numbers(150)'' [] limit_server) =
     PreviewRows (take 100 (numbers 150))"
proof -
  let ?cfg = "make_config ''localhost'' ''8443'' ''default'' ''default'' ''secret''"
  have c: "client limit_server = Some ?cfg" and t: "trace limit_server = []"
    by (simp_all add: limit_server_def)
  have e: "ensureConnection (limit_world (numbers 150)) limit_server = (True, limit_server)"
    using c by (rule ensure_live)
  have 1: "store_run (limit_world (numbers 150)) d ?cfg ''SELECT * FROM numbers(150) -- LIMIT 100'' =
      Inr (numbers 150, d)" for d
    by (simp add: limit_world_def limit_store_def startsWith_def js_trim_def is_js_space_def)
  have 2: "store_run (limit_world (numbers 150)) d ?cfg ''SELECT * FROM numbers(150) LIMIT 100'' =
      Inr (take 100 (numbers 150), d)" for d
    by (simp add: limit_world_def limit_store_def startsWith_def js_trim_def is_js_space_def)
  have 3: "length (numbers 150) = 150" by (simp add: numbers_def)
  from e c t 1 2 3 show ?thesis
    by (simp add: preview_def client_query_live [OF c] projection_def log_event_def)
qed

section \<open>The ingest handler: direction check\<close>

lemma ensure_events:
  "\<exists>evs. trace (snd (ensureConnection W s)) = trace s @ evs \<and> length evs \<le> 2 \<and>
     (\<forall>e \<in> set evs. \<exists>c. connectionConfig s = Some c \<and> (e = CreateClient c \<or> e = Query c ''SELECT 1''))"
proof (cases "client s = None \<and> connectionConfig s \<noteq> None")
  case True
  then obtain cfg where c: "client s = None" "connectionConfig s = Some cfg" by auto
  show ?thesis
    unfolding ensure_reconnect [OF c] using c(2)
    by (auto split: option.splits sum.splits)
next
  case False
  then have "ensureConnection W s = (client s \<noteq> None, s)"
    by (auto simp: ensureConnection_def split: option.splits)
  then show ?thesis by simp
qed

lemma ingest_no_store:
  assumes "\<not> valid_direction (source r) (target r)"
    and "source r \<noteq> Some ''clickhouse''" and "target r \<noteq> Some ''clickhouse''"
  shows "ingest W r s = (InvalidCombination, s)"
  using assms by (simp add: ingest_def valid_direction_def)

lemma ingest_store_named:
  assumes "\<not> valid_direction (source r) (target r)"
    and "source r = Some ''clickhouse'' \<or> target r = Some ''clickhouse''"
  shows "ingest W r s =
     (if fst (ensureConnection W s) then InvalidCombination else NotConnected,
      snd (ensureConnection W s))"
  using assms
  by (cases "ensureConnection W s") (auto simp: ingest_def valid_direction_def)

text \<open>
  Claim C1, as the code has it.  The ingest handler checks the connection before it looks
  at the direction, whenever the source or the target is \<^verbatim>\<open>clickhouse\<close>.  For a request
  whose pair is neither (clickhouse, flatfile) nor (flatfile, clickhouse): when neither side
  is \<^verbatim>\<open>clickhouse\<close> the answer is the invalid-combination rejection and the state is
  untouched; when one side is \<^verbatim>\<open>clickhouse\<close> the handler first runs
  \<^verbatim>\<open>ensureConnection\<close>, answers not-connected when that fails and invalid-combination
  when it succeeds (it succeeds when a client exists).  In every case the disk is unchanged, no file system call is made, and
  the only calls that leave the process are at most the two of a reconnect with the stored
  configuration: the construction of a client and the liveness query.
\<close>

theorem ingest_invalid_direction:
  "\<not> valid_direction (source r) (target r) \<longrightarrow>
     (source r \<noteq> Some ''clickhouse'' \<and> target r \<noteq> Some ''clickhouse'' \<longrightarrow>
        ingest W r s = (InvalidCombination, s)) \<and>
     (source r = Some ''clickhouse'' \<or> target r = Some ''clickhouse'' \<longrightarrow>
        ingest W r s =
          (if fst (ensureConnection W s) then InvalidCombination else NotConnected,
           snd (ensureConnection W s))) \<and>
     disk (snd (ingest W r s)) = disk s \<and>
     filter is_fs_event (trace (snd (ingest W r s))) = filter is_fs_event (trace s) \<and>
     (\<exists>evs. trace (snd (ingest W r s)) = trace s @ evs \<and> length evs \<le> 2 \<and>
        (\<forall>e \<in> set evs. \<exists>c. connectionConfig s = Some c \<and>
           (e = CreateClient c \<or> e = Query c ''SELECT 1'')))"
proof
  assume inv: "\<not> valid_direction (source r) (target r)"
  have cases: "ingest W r s = (InvalidCombination, s) \<or>
      snd (ingest W r s) = snd (ensureConnection W s)"
    using ingest_no_store [OF inv] ingest_store_named [OF inv] by (metis snd_conv)
  have d: "disk (snd (ingest W r s)) = disk s"
    using cases by (auto simp: ensure_disk)
  have f: "filter is_fs_event (trace (snd (ingest W r s))) = filter is_fs_event (trace s)"
    using cases by (auto simp: ensure_fs_events)
  have e: "\<exists>evs. trace (snd (ingest W r s)) = trace s @ evs \<and> length evs \<le> 2 \<and>
        (\<forall>e \<in> set evs. \<exists>c. connectionConfig s = Some c \<and>
           (e = CreateClient c \<or> e = Query c ''SELECT 1''))"
    using cases
  proof
    assume "ingest W r s = (InvalidCombination, s)"
    then have "trace (snd (ingest W r s)) = trace s @ []" by simp
    then show ?thesis by force
  next
    assume "snd (ingest W r s) = snd (ensureConnection W s)"
    then show ?thesis using ensure_events [of W s] by simp
  qed
  from inv d f e
  show "(source r \<noteq> Some ''clickhouse'' \<and> target r \<noteq> Some ''clickhouse'' \<longrightarrow>
        ingest W r s = (InvalidCombination, s)) \<and>
     (source r = Some ''clickhouse'' \<or> target r = Some ''clickhouse'' \<longrightarrow>
        ingest W r s =
          (if fst (ensureConnection W s) then InvalidCombination else NotConnected,
           snd (ensureConnection W s))) \<and>
     disk (snd (ingest W r s)) = disk s \<and>
     filter is_fs_event (trace (snd (ingest W r s))) = filter is_fs_event (trace s) \<and>
     (\<exists>evs. trace (snd (ingest W r s)) = trace s @ evs \<and> length evs \<le> 2 \<and>
        (\<forall>e \<in> set evs. \<exists>c. connectionConfig s = Some c \<and>
           (e = CreateClient c \<or> e = Query c ''SELECT 1'')))"
    using ingest_no_store [of r W s] ingest_store_named [of r W s] by blast
qed

lemma demo_request_sel:
  "source (demo_request src tgt file) = src" "target (demo_request src tgt file) = tgt"
  by (simp_all add: demo_request_def)

lemma demo_ensure_down:
  "ensureConnection (demo_world rows bad) (demo_server None (Some down_config)) =
     (False, (demo_server None (Some down_config))
        \<lparr>client := None, trace := [CreateClient down_config, Query down_config ''SELECT 1''],
         unhandled := [''connect ECONNREFUSED'']\<rparr>)"
  by (simp add: ensure_reconnect demo_simps)

theorem ingest_invalid_direction_witness:
  "ingest (demo_world [] []) (demo_request (Some ''flatfile'') (Some ''flatfile'') None)
     (demo_server None (Some demo_config)) =
     (InvalidCombination, demo_server None (Some demo_config)) \<and>
   fst (ingest (demo_world [] []) (demo_request (Some ''clickhouse'') None None)
     (demo_server (Some demo_config) (Some demo_config))) = InvalidCombination \<and>
   fst (ingest (demo_world [] []) (demo_request (Some ''clickhouse'') None None)
     (demo_server None (Some down_config))) = NotConnected"
proof -
  have 1: "\<not> valid_direction (source (demo_request (Some ''flatfile'') (Some ''flatfile'') None))
      (target (demo_request (Some ''flatfile'') (Some ''flatfile'') None))"
    by (simp add: valid_direction_def demo_request_sel)
  have 2: "\<not> valid_direction (source (demo_request (Some ''clickhouse'') None None))
      (target (demo_request (Some ''clickhouse'') None None))"
    by (simp add: valid_direction_def demo_request_sel)
  from 1 ingest_invalid_direction [where W = "demo_world [] []"
      and r = "demo_request (Some ''flatfile'') (Some ''flatfile'') None"
      and s = "demo_server None (Some demo_config)"]
  have a: "ingest (demo_world [] []) (demo_request (Some ''flatfile'') (Some ''flatfile'') None)
     (demo_server None (Some demo_config)) =
     (InvalidCombination, demo_server None (Some demo_config))"
    by (simp add: demo_request_sel)
  from 2 ingest_invalid_direction [where W = "demo_world [] []"
      and r = "demo_request (Some ''clickhouse'') None None"
      and s = "demo_server (Some demo_config) (Some demo_config)"]
  have b: "fst (ingest (demo_world [] []) (demo_request (Some ''clickhouse'') None None)
     (demo_server (Some demo_config) (Some demo_config))) = InvalidCombination"
    by (simp add: demo_request_sel demo_ensure_live)
  from 2 ingest_invalid_direction [where W = "demo_world [] []"
      and r = "demo_request (Some ''clickhouse'') None None"
      and s = "demo_server None (Some down_config)"]
  have c: "fst (ingest (demo_world [] []) (demo_request (Some ''clickhouse'') None None)
     (demo_server None (Some down_config))) = NotConnected"
    by (simp add: demo_request_sel demo_ensure_down)
  from a b c show ?thesis by blast
qed

text \<open>
  Claim C1 as stated fails: for the pair (clickhouse, clickhouse), with no client, a
  stored configuration and the store unreachable, the handler constructs a client and
  sends the liveness query before it answers, and it answers not-connected instead of
  invalid-combination.
\<close>

theorem ingest_invalid_direction_probes_store:
  "\<not> valid_direction (source (demo_request (Some ''clickhouse'') (Some ''clickhouse'') None))
      (target (demo_request (Some ''clickhouse'') (Some ''clickhouse'') None)) \<and>
   trace (demo_server None (Some down_config)) = [] \<and>
   fst (ingest (demo_world [] []) (demo_request (Some ''clickhouse'') (Some ''clickhouse'') None)
     (demo_server None (Some down_config))) = NotConnected \<and>
   trace (snd (ingest (demo_world [] []) (demo_request (Some ''clickhouse'') (Some ''clickhouse'') None)
     (demo_server None (Some down_config)))) =
     [CreateClient down_config, Query down_config ''SELECT 1'']"
proof -
  have "trace (demo_server None (Some down_config)) = []"
    by (simp add: demo_server_def)
  then show ?thesis
    by (simp add: ingest_def demo_request_sel valid_direction_def demo_ensure_down)
qed

section \<open>Export: the empty case\<close>

lemma client_query_frame:
  "disk (snd (client_query W q s)) = disk s \<and>
   client (snd (client_query W q s)) = client s \<and>
   filter is_fs_event (trace (snd (client_query W q s))) = filter is_fs_event (trace s)"
  by (simp add: client_query_def log_event_def is_fs_event_def split: option.splits sum.splits prod.splits)

lemma export_tables_frame:
  "disk (snd (export_tables W cols tbls results n s)) = disk s \<and>
   client (snd (export_tables W cols tbls results n s)) = client s \<and>
   filter is_fs_event (trace (snd (export_tables W cols tbls results n s))) =
     filter is_fs_event (trace s)"
proof (induction tbls arbitrary: results n s)
  case Nil
  then show ?case by simp
next
  case (Cons t ts)
  show ?case
  proof (cases "table_projection cols t")
    case (Inl err)
    then show ?thesis by simp
  next
    case (Inr columnsStr)
    let ?q = "''SELECT '' @ columnsStr @ '' FROM '' @ t"
    obtain res s1 where q: "client_query W ?q s = (res, s1)"
      by (cases "client_query W ?q s")
    then have s1: "s1 = snd (client_query W ?q s)" by simp
    show ?thesis
    proof (cases res)
      case (Inl err)
      with Inr q have "export_tables W cols (t # ts) results n s = (Inl err, s1)"
        by simp
      then show ?thesis using client_query_frame [of W ?q s] s1 by simp
    next
      case (Inr rows)
      with \<open>table_projection cols t = Inr columnsStr\<close> q
      have "export_tables W cols (t # ts) results n s =
          export_tables W cols ts (results @ rows) (n + length rows) s1"
        by simp
      then show ?thesis
        using Cons.IH [of "results @ rows" "n + length rows" s1] client_query_frame [of W ?q s] s1
        by simp
    qed
  qed
qed

lemma ensure_idem: "ensureConnection W s = (True, s1) \<Longrightarrow> ensureConnection W s1 = (True, s1)"
  using ensure_true_client [of W s s1] by (auto simp: ensure_live)

lemma clickhouseToFlatFile_empty:
  assumes "ensureConnection W s = (True, s1)"
    and "export_tables W cols tbls [] 0 s1 = (Inr ([], n), s2)"
  shows "clickhouseToFlatFile W tbls cols tf delim s =
           (Inr (TransferResult 0 None ''No records found to export''), s2)"
    and "clickhouseToFlatFile W tbls cols tf delim s1 =
           (Inr (TransferResult 0 None ''No records found to export''), s2)"
  using assms ensure_idem [OF assms(1)] by (simp_all add: clickhouseToFlatFile_def)

text \<open>
  Claim C8.  When the connection check succeeds and the queries of all tables succeed with
  no row at all, the export returns the result with record count 0 and no file reference,
  and so does an ingest request for the direction store to file.  Nothing is written:
  the disk is as before and no file system call is made, not even the existence test of
  the exports directory.
\<close>

theorem export_empty_writes_nothing:
  "source r = Some ''clickhouse'' \<and> target r = Some ''flatfile'' \<and>
   ensureConnection W s = (True, s1) \<and>
   export_tables W (columns r) (tables r) [] 0 s1 = (Inr ([], n), s2) \<longrightarrow>
     clickhouseToFlatFile W (tables r) (columns r) (targetFile r) delim s =
       (Inr (TransferResult 0 None ''No records found to export''), s2) \<and>
     ingest W r s = (IngestDone 0 ''No records found to export'' None, s2) \<and>
     disk s2 = disk s \<and>
     filter is_fs_event (trace s2) = filter is_fs_event (trace s)"
proof (intro impI conjI)
  assume a: "source r = Some ''clickhouse'' \<and> target r = Some ''flatfile'' \<and>
   ensureConnection W s = (True, s1) \<and>
   export_tables W (columns r) (tables r) [] 0 s1 = (Inr ([], n), s2)"
  then have e: "ensureConnection W s = (True, s1)"
    and x: "export_tables W (columns r) (tables r) [] 0 s1 = (Inr ([], n), s2)"
    by simp_all
  show "clickhouseToFlatFile W (tables r) (columns r) (targetFile r) delim s =
       (Inr (TransferResult 0 None ''No records found to export''), s2)"
    by (rule clickhouseToFlatFile_empty(1) [OF e x])
  show "ingest W r s = (IngestDone 0 ''No records found to export'' None, s2)"
    using a clickhouseToFlatFile_empty(2) [OF e x]
    by (simp add: ingest_def respond_def)
  have s1: "s1 = snd (ensureConnection W s)" using e by simp
  have s2: "s2 = snd (export_tables W (columns r) (tables r) [] 0 s1)" using x by simp
  show "disk s2 = disk s"
    unfolding s2 using export_tables_frame [of W "columns r" "tables r" "[]" 0 s1]
    by (simp add: s1 ensure_disk)
  show "filter is_fs_event (trace s2) = filter is_fs_event (trace s)"
    unfolding s2 using export_tables_frame [of W "columns r" "tables r" "[]" 0 s1]
    by (simp add: s1 ensure_fs_events)
qed

lemma demo_export_tables:
  "export_tables (demo_world rows []) Map.empty [''people''] [] 0
     (demo_server (Some demo_config) (Some demo_config)) =
   (Inr (rows, length rows),
    (demo_server (Some demo_config) (Some demo_config))
      \<lparr>trace := [Query demo_config ''SELECT * FROM people'']\<rparr>)"
  by (simp add: client_query_def log_event_def projection_def table_projection_def
        object_prototype_def demo_simps demo_server_def)

lemma demo_request_fields:
  "tables (demo_request src tgt file) = [''people'']"
  "columns (demo_request src tgt file) = Map.empty"
  "targetFile (demo_request src tgt file) = file"
  "filePath (demo_request src tgt file) = Some ''/srv/app/uploads/people.csv''"
  "targetTable (demo_request src tgt file) = Some ''t1''"
  "delimiter (demo_request src tgt file) = None"
  by (simp_all add: demo_request_def)

theorem export_empty_writes_nothing_witness:
  "ingest (demo_world [] []) (demo_request (Some ''clickhouse'') (Some ''flatfile'') None)
     (demo_server (Some demo_config) (Some demo_config)) =
     (IngestDone 0 ''No records found to export'' None,
      (demo_server (Some demo_config) (Some demo_config))
        \<lparr>trace := [Query demo_config ''SELECT * FROM people'']\<rparr>) \<and>
   disk ((demo_server (Some demo_config) (Some demo_config))
        \<lparr>trace := [Query demo_config ''SELECT * FROM people'']\<rparr>) =
     disk (demo_server (Some demo_config) (Some demo_config))"
  using export_empty_writes_nothing [where W = "demo_world [] []"
      and r = "demo_request (Some ''clickhouse'') (Some ''flatfile'') None"
      and s = "demo_server (Some demo_config) (Some demo_config)"
      and ?s1.0 = "demo_server (Some demo_config) (Some demo_config)"
      and ?s2.0 = "(demo_server (Some demo_config) (Some demo_config))
        \<lparr>trace := [Query demo_config ''SELECT * FROM people'']\<rparr>"
      and n = 0 and delim = "'',''"]
    demo_export_tables [of "[]"]
  by (simp add: demo_request_sel demo_request_fields demo_ensure_live)

section \<open>Export: the header and the target path\<close>

lemma map_insort_key: "map g (insort_key (\<lambda>e. f (g e)) x xs) = insort_key f (g x) (map g xs)"
  by (induction xs) simp_all

lemma map_sort_key: "map g (sort_key (\<lambda>e. f (g e)) xs) = sort_key f (map g xs)"
  by (induction xs) (simp_all add: map_insort_key)

lemma object_keys_order:
  "object_keys obj =
     sort_key nat_of_digits (filter is_array_index (map fst obj)) @
     filter (\<lambda>k. \<not> is_array_index k) (map fst obj)"
  by (simp add: object_keys_def object_entries_def map_sort_key filter_map comp_def)

lemma object_keys_plain:
  assumes "\<forall>k \<in> set (map fst obj). \<not> is_array_index k"
  shows "object_keys obj = map fst obj"
proof -
  from assms have "filter is_array_index (map fst obj) = []"
    and "filter (\<lambda>k. \<not> is_array_index k) (map fst obj) = map fst obj"
    by (simp_all add: filter_empty_conv)
  then show ?thesis by (simp add: object_keys_order)
qed

lemma csv_lines_keys:
  "csv_lines (map (\<lambda>key. (key, key)) keys) records =
     keys # map (\<lambda>row. map (\<lambda>key. case js_get row key of None \<Rightarrow> [] | Some v \<Rightarrow> v) keys) records"
  by (simp add: csv_lines_def csv_cells_def comp_def)

lemma ensure_dir_disk:
  "disk (ensure_dir d s) p = (if p = d \<and> disk s d = None then Some Directory else disk s p)"
  by (simp add: ensure_dir_def log_event_def Let_def)

lemma clickhouseToFlatFile_writes:
  assumes e: "ensureConnection W s = (True, s1)"
    and x: "export_tables W cols tbls [] 0 s1 = (Inr (first # rest, n), s2)"
    and p: "path = path_join (path_join (dirname W) ''exports'') (basename (or_default tf ''export.csv''))"
    and d: "path \<noteq> path_join (dirname W) ''exports''" "disk s path \<noteq> Some Directory"
  shows "disk (snd (clickhouseToFlatFile W tbls cols tf delim s)) path =
           Some (CsvFile (csv_lines (map (\<lambda>key. (key, key)) (object_keys first)) (first # rest)))"
    and "fst (clickhouseToFlatFile W tbls cols tf delim s) =
           Inr (TransferResult n (Some (basename (or_default tf ''export.csv'')))
                 (''Successfully exported '' @ show_nat n @ '' records to '' @
                  basename (or_default tf ''export.csv'')))"
proof -
  have "disk s2 = disk s"
    using export_tables_frame [of W cols tbls "[]" 0 s1] ensure_disk [of W s] e x by simp
  with d have nd: "disk (ensure_dir (path_join (dirname W) ''exports'') s2) path \<noteq> Some Directory"
    by (simp add: ensure_dir_disk)
  show "disk (snd (clickhouseToFlatFile W tbls cols tf delim s)) path =
           Some (CsvFile (csv_lines (map (\<lambda>key. (key, key)) (object_keys first)) (first # rest)))"
    using e x nd unfolding p
    by (simp add: clickhouseToFlatFile_def writeRecords_def log_event_def Let_def
          split: option.splits file_node.splits)
  show "fst (clickhouseToFlatFile W tbls cols tf delim s) =
           Inr (TransferResult n (Some (basename (or_default tf ''export.csv'')))
                 (''Successfully exported '' @ show_nat n @ '' records to '' @
                  basename (or_default tf ''export.csv'')))"
    using e x nd unfolding p
    by (simp add: clickhouseToFlatFile_def writeRecords_def log_event_def Let_def
          split: option.splits file_node.splits)
qed

text \<open>
  Claim C4, as the code has it.  When the accumulated rows are not empty and the target
  path is not a directory, the file written has as its header the keys of the first
  accumulated row as \<^verbatim>\<open>Object.keys\<close> enumerates them, and not a union over all rows: keys
  that are array indices first, in ascending numeric order, then the other keys in the
  order in which the row got them.  The header is the first row's keys in insertion order
  whenever none of them is an array index.  The line of every row holds, for each header
  key in turn, what the writer reads as \<^verbatim>\<open>row[key]\<close>: the row's own value under that key;
  the empty string when the row lacks the key and the key is not the name of a member
  that every object inherits; and the text of that member otherwise.  A field of a later
  row that the first row does not have appears nowhere.
\<close>

theorem export_header_from_first_row:
  "ensureConnection W s = (True, s1) \<and>
   export_tables W cols tbls [] 0 s1 = (Inr (first # rest, n), s2) \<and>
   path = path_join (path_join (dirname W) ''exports'') (basename (or_default tf ''export.csv'')) \<and>
   path \<noteq> path_join (dirname W) ''exports'' \<and> disk s path \<noteq> Some Directory \<longrightarrow>
     disk (snd (clickhouseToFlatFile W tbls cols tf delim s)) path =
       Some (CsvFile (object_keys first #
         map (\<lambda>row. map (\<lambda>key. case js_get row key of None \<Rightarrow> [] | Some v \<Rightarrow> v) (object_keys first))
           (first # rest))) \<and>
     object_keys first =
       sort_key nat_of_digits (filter is_array_index (map fst first)) @
       filter (\<lambda>k. \<not> is_array_index k) (map fst first) \<and>
     ((\<forall>k \<in> set (map fst first). \<not> is_array_index k) \<longrightarrow> object_keys first = map fst first) \<and>
     (map_of row key = Some v \<longrightarrow> js_get row key = Some v) \<and>
     (map_of row key = None \<and> object_prototype key = None \<longrightarrow> js_get row key = None) \<and>
     (map_of row key = None \<and> object_prototype key = Some m \<longrightarrow>
        js_get row key = Some (render_inherited m))"
proof (intro impI conjI)
  assume a: "ensureConnection W s = (True, s1) \<and>
   export_tables W cols tbls [] 0 s1 = (Inr (first # rest, n), s2) \<and>
   path = path_join (path_join (dirname W) ''exports'') (basename (or_default tf ''export.csv'')) \<and>
   path \<noteq> path_join (dirname W) ''exports'' \<and> disk s path \<noteq> Some Directory"
  then have "disk (snd (clickhouseToFlatFile W tbls cols tf delim s)) path =
           Some (CsvFile (csv_lines (map (\<lambda>key. (key, key)) (object_keys first)) (first # rest)))"
    by (intro clickhouseToFlatFile_writes(1) [where ?s1.0 = s1 and ?s2.0 = s2 and n = n]) blast+
  then show "disk (snd (clickhouseToFlatFile W tbls cols tf delim s)) path =
       Some (CsvFile (object_keys first #
         map (\<lambda>row. map (\<lambda>key. case js_get row key of None \<Rightarrow> [] | Some v \<Rightarrow> v) (object_keys first))
           (first # rest)))"
    by (simp only: csv_lines_keys)
next
  show "object_keys first =
       sort_key nat_of_digits (filter is_array_index (map fst first)) @
       filter (\<lambda>k. \<not> is_array_index k) (map fst first)"
    by (rule object_keys_order)
next
  assume "\<forall>k \<in> set (map fst first). \<not> is_array_index k"
  then show "object_keys first = map fst first"
    by (rule object_keys_plain)
next
  assume "map_of row key = Some v"
  then show "js_get row key = Some v" by (simp add: js_get_def)
next
  assume "map_of row key = None \<and> object_prototype key = None"
  then show "js_get row key = None" by (simp add: js_get_def)
next
  assume "map_of row key = None \<and> object_prototype key = Some m"
  then show "js_get row key = Some (render_inherited m)" by (simp add: js_get_def)
qed

lemma demo_paths:
  "path_join (dirname (demo_world rows bad)) ''exports'' = ''/srv/app/exports''"
  "path_join ''/srv/app/exports'' (basename (or_default None ''export.csv'')) = ''/srv/app/exports/export.csv''"
  "path_join ''/srv/app/exports'' (basename (or_default (Some ''../../etc/passwd'') ''export.csv'')) =
     ''/srv/app/exports/passwd''"
  "path_join ''/srv/app/exports'' (basename (or_default (Some ''..'') ''export.csv'')) = ''/srv/app''"
  "path_join ''/srv/app/exports'' (basename ''..'') = ''/srv/app''"
  "path_join ''/srv/app/exports'' (basename ''../../etc/passwd'') = ''/srv/app/exports/passwd''"
  by (simp_all add: demo_world_def path_join_def path_normalize_def basename_def or_default_def)

lemma demo_keys:
  "object_keys [(''a'', ''1''), (''b'', ''2'')] = [''a'', ''b'']"
  "object_keys [(''b'', ''2''), (''1'', ''x'')] = [''1'', ''b'']"
  by (simp_all add: object_keys_def object_entries_def is_array_index_def is_digit_def nat_of_digits_def)

lemma demo_disk_lookup:
  "disk (demo_server cl cfg) ''/srv/app/exports/export.csv'' = None"
  "disk (demo_server cl cfg) ''/srv/app/exports'' = None"
  "disk (demo_server cl cfg) ''/srv/app'' = Some Directory"
  by (simp_all add: demo_server_def demo_disk_def)

text \<open>
  The rows of the specification's example, followed by a row that lacks the field
  \<^verbatim>\<open>b\<close>: the header is \<^verbatim>\<open>a,b\<close>, the value of \<^verbatim>\<open>c\<close> is left out, and the missing \<^verbatim>\<open>b\<close> is
  written as an empty cell.  Then a first row with a field named \<^verbatim>\<open>constructor\<close>, which
  the second row lacks: its cell holds the text of the inherited function.
\<close>

theorem export_header_from_first_row_witness:
  "disk (snd (clickhouseToFlatFile
       (demo_world [[(''a'', ''1''), (''b'', ''2'')], [(''a'', ''3''), (''b'', ''4''), (''c'', ''5'')],
                    [(''a'', ''6'')]] [])
       [''people''] Map.empty None '',''
       (demo_server (Some demo_config) (Some demo_config))))
     ''/srv/app/exports/export.csv'' =
     Some (CsvFile [[''a'', ''b''], [''1'', ''2''], [''3'', ''4''], [''6'', []]]) \<and>
   disk (snd (clickhouseToFlatFile
       (demo_world [[(''constructor'', ''x''), (''a'', ''1'')], [(''a'', ''2'')]] [])
       [''people''] Map.empty None '',''
       (demo_server (Some demo_config) (Some demo_config))))
     ''/srv/app/exports/export.csv'' =
     Some (CsvFile [[''constructor'', ''a''], [''x'', ''1''],
                    [''function Object() { [native code] }'', ''2'']]) \<and>
   js_get [(''a'', ''6'')] ''a'' = Some ''6'' \<and>
   js_get [(''a'', ''6'')] ''b'' = None \<and>
   js_get [(''a'', ''2'')] ''constructor'' = Some ''function Object() { [native code] }''"
proof -
  let ?s = "demo_server (Some demo_config) (Some demo_config)"
  let ?s2 = "?s\<lparr>trace := [Query demo_config ''SELECT * FROM people'']\<rparr>"
  let ?path = "''/srv/app/exports/export.csv''"
  let ?first1 = "[(''a'', ''1''), (''b'', ''2'')]"
  let ?rest1 = "[[(''a'', ''3''), (''b'', ''4''), (''c'', ''5'')], [(''a'', ''6'')]]"
  let ?first2 = "[(''constructor'', ''x''), (''a'', ''1'')]"
  let ?rest2 = "[[(''a'', ''2'')]]"
  let ?W1 = "demo_world (?first1 # ?rest1) []"
  let ?W2 = "demo_world (?first2 # ?rest2) []"
  have e: "ensureConnection ?W1 ?s = (True, ?s)" "ensureConnection ?W2 ?s = (True, ?s)"
    by (rule demo_ensure_live)+
  have x1: "export_tables ?W1 Map.empty [''people''] [] 0 ?s = (Inr (?first1 # ?rest1, 3), ?s2)"
    using demo_export_tables [of "?first1 # ?rest1"] by simp
  have x2: "export_tables ?W2 Map.empty [''people''] [] 0 ?s = (Inr (?first2 # ?rest2, 2), ?s2)"
    using demo_export_tables [of "?first2 # ?rest2"] by simp
  have p: "?path = path_join (path_join (dirname ?W1) ''exports'') (basename (or_default None ''export.csv''))"
    "?path = path_join (path_join (dirname ?W2) ''exports'') (basename (or_default None ''export.csv''))"
    by (simp_all add: demo_paths)
  have d: "?path \<noteq> path_join (dirname ?W1) ''exports''" "?path \<noteq> path_join (dirname ?W2) ''exports''"
      "disk ?s ?path \<noteq> Some Directory"
    by (simp_all add: demo_paths demo_disk_lookup)
  have plain: "\<forall>k \<in> set (map fst ?first1). \<not> is_array_index k"
    "\<forall>k \<in> set (map fst ?first2). \<not> is_array_index k"
    by (simp_all add: is_array_index_def is_digit_def)
  have own: "map_of [(''a'', ''6'')] ''a'' = Some ''6''" by simp
  have absent: "map_of [(''a'', ''6'')] ''b'' = None \<and> object_prototype ''b'' = None"
    by (simp add: object_prototype_def)
  have inherited: "map_of [(''a'', ''2'')] ''constructor'' = None \<and>
      object_prototype ''constructor'' = Some (NativeFunction ''Object'' 1)"
    by (simp add: object_prototype_def)
  note T1 = export_header_from_first_row [where W = ?W1 and s = ?s and ?s1.0 = ?s
      and cols = Map.empty and tbls = "[''people'']" and first = ?first1 and rest = ?rest1 and n = 3
      and ?s2.0 = ?s2 and path = ?path and tf = None and delim = "'',''"
      and row = "[(''a'', ''6'')]" and key = "''b''" and v = "''6''" and m = PrototypeObject]
  note T2 = export_header_from_first_row [where W = ?W2 and s = ?s and ?s1.0 = ?s
      and cols = Map.empty and tbls = "[''people'']" and first = ?first2 and rest = ?rest2 and n = 2
      and ?s2.0 = ?s2 and path = ?path and tf = None and delim = "'',''"
      and row = "[(''a'', ''2'')]" and key = "''constructor''" and v = "''2''"
      and m = "NativeFunction ''Object'' 1"]
  note T3 = export_header_from_first_row [where W = ?W1 and s = ?s and ?s1.0 = ?s
      and cols = Map.empty and tbls = "[''people'']" and first = ?first1 and rest = ?rest1 and n = 3
      and ?s2.0 = ?s2 and path = ?path and tf = None and delim = "'',''"
      and row = "[(''a'', ''6'')]" and key = "''a''" and v = "''6''" and m = PrototypeObject]
  from e(1) x1 p(1) d(1,3) plain(1) absent T1
  have 1: "disk (snd (clickhouseToFlatFile ?W1 [''people''] Map.empty None '','' ?s)) ?path =
       Some (CsvFile (object_keys ?first1 #
         map (\<lambda>row. map (\<lambda>key. case js_get row key of None \<Rightarrow> [] | Some v \<Rightarrow> v)
                (object_keys ?first1)) (?first1 # ?rest1)))"
    and 3: "js_get [(''a'', ''6'')] ''b'' = None"
    by blast+
  from e(2) x2 p(2) d(2,3) plain(2) inherited T2
  have 2: "disk (snd (clickhouseToFlatFile ?W2 [''people''] Map.empty None '','' ?s)) ?path =
       Some (CsvFile (object_keys ?first2 #
         map (\<lambda>row. map (\<lambda>key. case js_get row key of None \<Rightarrow> [] | Some v \<Rightarrow> v)
                (object_keys ?first2)) (?first2 # ?rest2)))"
    and 4: "js_get [(''a'', ''2'')] ''constructor'' = Some (render_inherited (NativeFunction ''Object'' 1))"
    by blast+
  from e(1) x1 p(1) d(1,3) own T3
  have 5: "js_get [(''a'', ''6'')] ''a'' = Some ''6''"
    by blast
  have k: "object_keys ?first1 = [''a'', ''b'']" "object_keys ?first2 = [''constructor'', ''a'']"
    by (simp_all add: object_keys_def object_entries_def is_array_index_def is_digit_def)
  from 1 2 3 4 5 show ?thesis
    by (simp add: k js_get_def object_prototype_def)
qed

text \<open>
  Claim C4 as stated fails on the order: a first row that received the key \<^verbatim>\<open>b\<close> before
  the key \<^verbatim>\<open>1\<close> is written under the header \<^verbatim>\<open>1,b\<close>.
\<close>

theorem export_header_not_insertion_order:
  "map fst [(''b'', ''2''), (''1'', ''x'')] = [''b'', ''1''] \<and>
   disk (snd (clickhouseToFlatFile (demo_world [[(''b'', ''2''), (''1'', ''x'')]] [])
       [''people''] Map.empty None '',''
       (demo_server (Some demo_config) (Some demo_config))))
     ''/srv/app/exports/export.csv'' =
     Some (CsvFile [[''1'', ''b''], [''x'', ''2'']])"
proof -
  let ?rows = "[[(''b'', ''2''), (''1'', ''x'')]]"
  let ?s = "demo_server (Some demo_config) (Some demo_config)"
  have e: "ensureConnection (demo_world ?rows []) ?s = (True, ?s)"
    by (rule demo_ensure_live)
  have x: "export_tables (demo_world ?rows []) Map.empty [''people''] [] 0 ?s =
      (Inr ([(''b'', ''2''), (''1'', ''x'')] # [], 1),
       ?s\<lparr>trace := [Query demo_config ''SELECT * FROM people'']\<rparr>)"
    using demo_export_tables [of ?rows] by simp
  have p: "''/srv/app/exports/export.csv'' =
      path_join (path_join (dirname (demo_world ?rows [])) ''exports'')
        (basename (or_default None ''export.csv''))"
    by (simp add: demo_paths)
  have d: "''/srv/app/exports/export.csv'' \<noteq> path_join (dirname (demo_world ?rows [])) ''exports''"
      "disk ?s ''/srv/app/exports/export.csv'' \<noteq> Some Directory"
    by (simp_all add: demo_paths demo_disk_lookup)
  have "disk (snd (clickhouseToFlatFile (demo_world ?rows []) [''people''] Map.empty None '','' ?s))
      ''/srv/app/exports/export.csv'' =
      Some (CsvFile (csv_lines (map (\<lambda>key. (key, key)) (object_keys [(''b'', ''2''), (''1'', ''x'')]))
         ([(''b'', ''2''), (''1'', ''x'')] # [])))"
    by (rule clickhouseToFlatFile_writes(1) [OF e x p d])
  then show ?thesis by (simp add: demo_keys csv_lines_def csv_cells_def js_get_def)
qed

lemma clickhouseToFlatFile_nonempty:
  assumes "ensureConnection W s = (True, s1)"
    and "export_tables W cols tbls [] 0 s1 = (Inr (first # rest, n), s2)"
  shows "clickhouseToFlatFile W tbls cols tf delim s =
     (let dirPath = path_join (dirname W) ''exports'';
          safeFileName = basename (or_default tf ''export.csv'')
      in case writeRecords (path_join dirPath safeFileName)
                (map (\<lambda>key. (key, key)) (object_keys first)) (first # rest) (ensure_dir dirPath s2) of
           (Inl err, s4) \<Rightarrow> (Inl (Rejected err), s4)
         | (Inr u, s4) \<Rightarrow>
             (Inr (TransferResult n (Some safeFileName)
                    (''Successfully exported '' @ show_nat n @ '' records to '' @ safeFileName)), s4))"
  using assms by (simp add: clickhouseToFlatFile_def Let_def)

lemma basename_no_separator: "CHR ''/'' \<notin> set (basename p)"
  by (auto simp: basename_def dest: set_takeWhileD)

text \<open>
  Claim C5 at the name \<^verbatim>\<open>..\<close>, which \<^verbatim>\<open>path.basename\<close> returns unchanged.  The download
  handler then looks at the parent of the exports directory and hands it to
  \<^verbatim>\<open>res.download\<close>; the export creates the exports directory and then tries to write to
  its parent, which fails because that is a directory.  In both handlers the path used
  on disk lies outside the exports directory.
\<close>

theorem sanitized_name_escapes_exports:
  "basename ''..'' = ''..'' \<and>
   path_join (dirname (demo_world [] [])) ''exports'' = ''/srv/app/exports'' \<and>
   fst (download (demo_world [] []) ''..'' (demo_server None None)) = Download ''/srv/app'' \<and>
   \<not> inside_dir ''/srv/app/exports'' ''/srv/app'' \<and>
   clickhouseToFlatFile (demo_world [[(''a'', ''1'')]] []) [''people''] Map.empty (Some ''..'') '',''
       (demo_server (Some demo_config) (Some demo_config)) =
     (Inl (Rejected ''EISDIR: illegal operation on a directory''),
      (demo_server (Some demo_config) (Some demo_config))
        \<lparr>disk := (disk (demo_server (Some demo_config) (Some demo_config)))
                   (''/srv/app/exports'' \<mapsto> Directory),
         trace := [Query demo_config ''SELECT * FROM people'', FsExists ''/srv/app/exports'',
                   FsMkdir ''/srv/app/exports'', FsWrite ''/srv/app'']\<rparr>)"
proof -
  have 1: "basename ''..'' = ''..''" by (simp add: basename_def)
  have 2: "fst (download (demo_world [] []) ''..'' (demo_server None None)) = Download ''/srv/app''"
    by (simp add: download_def demo_paths log_event_def demo_disk_lookup Let_def)
  have 3: "\<not> inside_dir ''/srv/app/exports'' ''/srv/app''" by (simp add: inside_dir_def)
  have 4: "clickhouseToFlatFile (demo_world [[(''a'', ''1'')]] []) [''people''] Map.empty (Some ''..'') '',''
       (demo_server (Some demo_config) (Some demo_config)) =
     (Inl (Rejected ''EISDIR: illegal operation on a directory''),
      (demo_server (Some demo_config) (Some demo_config))
        \<lparr>disk := (disk (demo_server (Some demo_config) (Some demo_config)))
                   (''/srv/app/exports'' \<mapsto> Directory),
         trace := [Query demo_config ''SELECT * FROM people'', FsExists ''/srv/app/exports'',
                   FsMkdir ''/srv/app/exports'', FsWrite ''/srv/app'']\<rparr>)"
  proof -
    let ?W = "demo_world [[(''a'', ''1'')]] []"
    let ?s = "demo_server (Some demo_config) (Some demo_config)"
    have e: "ensureConnection ?W ?s = (True, ?s)"
      by (rule demo_ensure_live)
    have x: "export_tables ?W Map.empty [''people''] [] 0 ?s =
        (Inr ([(''a'', ''1'')] # [], 1), ?s\<lparr>trace := [Query demo_config ''SELECT * FROM people'']\<rparr>)"
      using demo_export_tables [of "[[(''a'', ''1'')]]"] by simp
    show ?thesis
      unfolding clickhouseToFlatFile_nonempty [OF e x]
      by (simp add: demo_paths ensure_dir_def writeRecords_def log_event_def demo_disk_lookup Let_def)
  qed
  from 1 2 3 4 show ?thesis by (simp add: demo_paths)
qed

section \<open>Import: table creation and the insert loop\<close>

lemma client_exec_frame:
  "client (snd (client_exec W q s)) = client s \<and> disk (snd (client_exec W q s)) = disk s"
  by (simp add: client_exec_def log_event_def split: option.splits sum.splits prod.splits)

lemma insert_rows_client: "client (snd (insert_rows W tt rows s)) = client s"
proof (induction rows arbitrary: s)
  case Nil
  then show ?case by simp
next
  case (Cons row rows)
  show ?case
  proof (cases "client_exec W (insert_query tt row) s")
    case (Pair res s1)
    then have "client s1 = client s"
      using client_exec_frame [of W "insert_query tt row" s] by simp
    with Pair Cons.IH [of s1] show ?thesis by (cases res) simp_all
  qed
qed

lemma insert_rows_ok_trace:
  assumes "client s = Some cfg" and "insert_rows W tt rows s = (Inr (), s')"
  shows "trace s' = trace s @ map (\<lambda>row. Exec cfg (insert_query tt row)) rows"
  using assms
proof (induction rows arbitrary: s)
  case Nil
  then show ?case by simp
next
  case (Cons row rows)
  from Cons.prems obtain d' rs where
    run: "store_run W (db s) cfg (insert_query tt row) = Inr (rs, d')"
    by (auto simp: client_exec_live split: sum.splits prod.splits)
  let ?s1 = "s\<lparr>db := d', trace := trace s @ [Exec cfg (insert_query tt row)]\<rparr>"
  from Cons.prems run have rest: "insert_rows W tt rows ?s1 = (Inr (), s')"
    by (simp add: client_exec_live)
  have "client ?s1 = Some cfg" using Cons.prems(1) by simp
  from Cons.IH [OF this rest] show ?case by simp
qed

lemma insert_rows_append:
  assumes "insert_rows W tt rows1 s = (Inr (), s1)"
  shows "insert_rows W tt (rows1 @ rows2) s = insert_rows W tt rows2 s1"
  using assms
proof (induction rows1 arbitrary: s)
  case Nil
  then show ?case by simp
next
  case (Cons row rows)
  then show ?case
    by (cases "client_exec W (insert_query tt row) s")
       (auto split: sum.splits)
qed

lemma insert_rows_fail_at:
  assumes pre: "insert_rows W tt before s = (Inr (), s1)"
    and cl: "client s = Some cfg"
    and bad: "store_run W (db s1) cfg (insert_query tt row) = Inl err"
  shows "insert_rows W tt (before @ row # after) s =
           (Inl err, s1\<lparr>trace := trace s1 @ [Exec cfg (insert_query tt row)]\<rparr>)"
proof -
  have c1: "client s1 = Some cfg"
    using insert_rows_client [of W tt before s] pre cl by simp
  have "insert_rows W tt (before @ row # after) s = insert_rows W tt (row # after) s1"
    by (rule insert_rows_append [OF pre])
  also have "\<dots> = (Inl err, s1\<lparr>trace := trace s1 @ [Exec cfg (insert_query tt row)]\<rparr>)"
    using c1 bad by (simp add: client_exec_live)
  finally show ?thesis .
qed

lemma take_nth_drop:
  assumes "1 \<le> k" and "k \<le> length rows"
  shows "take (k - 1) rows @ rows ! (k - 1) # drop k rows = rows"
proof -
  from assms have "k - 1 < length rows" and "Suc (k - 1) = k" by simp_all
  then show ?thesis using id_take_nth_drop [of "k - 1" rows] by simp
qed

lemma client_exec_extends: "\<exists>evs. trace (snd (client_exec W q s)) = trace s @ evs"
  by (simp add: client_exec_def log_event_def split: option.splits sum.splits prod.splits)

lemma insert_rows_extends: "\<exists>evs. trace (snd (insert_rows W tt rows s)) = trace s @ evs"
proof (induction rows arbitrary: s)
  case Nil
  then show ?case by simp
next
  case (Cons row rows)
  obtain res s1 where x: "client_exec W (insert_query tt row) s = (res, s1)"
    by (cases "client_exec W (insert_query tt row) s")
  with client_exec_extends [of W "insert_query tt row" s]
  obtain evs1 where 1: "trace s1 = trace s @ evs1" by auto
  from Cons.IH [of s1] obtain evs2 where
    2: "trace (snd (insert_rows W tt rows s1)) = trace s1 @ evs2" by blast
  show ?case
  proof (cases res)
    case (Inl err)
    with x 1 show ?thesis by simp
  next
    case (Inr u)
    with x 1 2 show ?thesis by simp
  qed
qed

lemma read_rows_frame:
  "client (snd (read_rows W fp delim s)) = client s \<and>
   db (snd (read_rows W fp delim s)) = db s \<and>
   trace (snd (read_rows W fp delim s)) = trace s @ [FsRead fp]"
  by (simp add: read_rows_def log_event_def Let_def split: option.splits file_node.splits sum.splits)

lemma flatFileToClickhouse_rows:
  assumes "ensureConnection W s = (True, s1)"
    and "read_rows W fp delim s1 = (Inr (first # rest), s2)"
  shows "flatFileToClickhouse W fp tt delim s =
     (case client_exec W (create_table_query tt first) s2 of
        (Inl err, s3) \<Rightarrow> (Inl (Rejected err), s3)
      | (Inr u, s3) \<Rightarrow>
          (case insert_rows W tt (first # rest) s3 of
             (Inl err, s4) \<Rightarrow> (Inl (Rejected err), s4)
           | (Inr u, s4) \<Rightarrow>
               (Inr (TransferResult (length (first # rest)) None
                      (''Successfully imported '' @ show_nat (length (first # rest)) @
                       '' records to '' @ tt)), s4)))"
  using assms by (simp add: flatFileToClickhouse_def del: insert_rows.simps)

text \<open>
  Claim C3.  Let the file parse into \<open>n\<close> records, let the table creation succeed, let
  the inserts of the first \<open>k - 1\<close> records succeed, and let the store reject the insert
  of record \<open>k\<close>.  Then the import fails with the store's error instead of returning a
  result.  The store is left as it was after the first \<open>k - 1\<close> inserts: they stay, and
  nothing is rolled back.  The statements issued after the table creation are exactly
  the inserts of records \<open>1\<close> to \<open>k\<close>, one per record and in file order, each issued on
  the state its predecessor left; no insert is issued for the records after \<open>k\<close>.
\<close>

theorem import_aborts_at_failed_insert:
  "1 \<le> k \<and> k \<le> length rows \<and>
   ensureConnection W s = (True, s1) \<and> client s1 = Some cfg \<and>
   read_rows W fp delim s1 = (Inr rows, s2) \<and>
   client_exec W (create_table_query tt (hd rows)) s2 = (Inr (), s3) \<and>
   insert_rows W tt (take (k - 1) rows) s3 = (Inr (), s4) \<and>
   store_run W (db s4) cfg (insert_query tt (rows ! (k - 1))) = Inl err \<longrightarrow>
     flatFileToClickhouse W fp tt delim s =
       (Inl (Rejected err), s4\<lparr>trace := trace s4 @ [Exec cfg (insert_query tt (rows ! (k - 1)))]\<rparr>) \<and>
     db (snd (flatFileToClickhouse W fp tt delim s)) = db s4 \<and>
     trace (snd (flatFileToClickhouse W fp tt delim s)) =
       trace s3 @ map (\<lambda>row. Exec cfg (insert_query tt row)) (take k rows)"
proof
  assume a: "1 \<le> k \<and> k \<le> length rows \<and>
   ensureConnection W s = (True, s1) \<and> client s1 = Some cfg \<and>
   read_rows W fp delim s1 = (Inr rows, s2) \<and>
   client_exec W (create_table_query tt (hd rows)) s2 = (Inr (), s3) \<and>
   insert_rows W tt (take (k - 1) rows) s3 = (Inr (), s4) \<and>
   store_run W (db s4) cfg (insert_query tt (rows ! (k - 1))) = Inl err"
  then have k: "1 \<le> k" "k \<le> length rows"
    and e: "ensureConnection W s = (True, s1)"
    and c1: "client s1 = Some cfg"
    and r: "read_rows W fp delim s1 = (Inr rows, s2)"
    and c: "client_exec W (create_table_query tt (hd rows)) s2 = (Inr (), s3)"
    and pre: "insert_rows W tt (take (k - 1) rows) s3 = (Inr (), s4)"
    and bad: "store_run W (db s4) cfg (insert_query tt (rows ! (k - 1))) = Inl err"
    by simp_all
  from k obtain first rest where rows: "rows = first # rest"
    by (cases rows) auto
  have c2: "client s2 = Some cfg"
    using read_rows_frame [of W fp delim s1] r c1 by simp
  have c3: "client s3 = Some cfg"
    using client_exec_frame [of W "create_table_query tt (hd rows)" s2] c c2 by simp
  let ?final = "s4\<lparr>trace := trace s4 @ [Exec cfg (insert_query tt (rows ! (k - 1)))]\<rparr>"
  have "insert_rows W tt (take (k - 1) rows @ rows ! (k - 1) # drop k rows) s3 = (Inl err, ?final)"
    by (rule insert_rows_fail_at [OF pre c3 bad])
  then have ins: "insert_rows W tt rows s3 = (Inl err, ?final)"
    by (simp only: take_nth_drop [OF k])
  have res: "flatFileToClickhouse W fp tt delim s = (Inl (Rejected err), ?final)"
    using flatFileToClickhouse_rows [OF e r [unfolded rows], of tt] c ins
    by (simp add: rows del: insert_rows.simps)
  have t4: "trace s4 = trace s3 @ map (\<lambda>row. Exec cfg (insert_query tt row)) (take (k - 1) rows)"
    by (rule insert_rows_ok_trace [OF c3 pre])
  from k have "take k rows = take (k - 1) rows @ [rows ! (k - 1)]"
    using take_Suc_conv_app_nth [of "k - 1" rows] by simp
  with t4 have tr: "trace ?final = trace s3 @ map (\<lambda>row. Exec cfg (insert_query tt row)) (take k rows)"
    by simp
  from res tr
  show "flatFileToClickhouse W fp tt delim s =
       (Inl (Rejected err), s4\<lparr>trace := trace s4 @ [Exec cfg (insert_query tt (rows ! (k - 1)))]\<rparr>) \<and>
     db (snd (flatFileToClickhouse W fp tt delim s)) = db s4 \<and>
     trace (snd (flatFileToClickhouse W fp tt delim s)) =
       trace s3 @ map (\<lambda>row. Exec cfg (insert_query tt row)) (take k rows)"
    by simp
qed

text \<open>
  Claim C7.  When the connection check succeeds and the file parses into at least one
  record, the first statement the import sends, right after reading the file, is the
  table creation.  Its text is fixed by the target table and the keys of the first
  record alone: \<^verbatim>\<open>CREATE TABLE IF NOT EXISTS\<close>, the table, and in parentheses every key
  of the first record followed by \<^verbatim>\<open>String\<close>, with \<^verbatim>\<open>ENGINE = MergeTree()\<close> and the empty
  ordering key \<^verbatim>\<open>ORDER BY tuple()\<close>.
\<close>

theorem import_creates_table_from_first_record:
  "ensureConnection W s = (True, s1) \<and> client s1 = Some cfg \<and>
   read_rows W fp delim s1 = (Inr (first # rest), s2) \<longrightarrow>
     trace s2 = trace s1 @ [FsRead fp] \<and>
     (\<exists>evs. trace (snd (flatFileToClickhouse W fp tt delim s)) =
        trace s2 @
        Exec cfg
          ([CHR 0x0A] @ ''              CREATE TABLE IF NOT EXISTS '' @ tt @ '' ('' @
           [CHR 0x0A] @ ''                '' @
             join '', '' (map (\<lambda>col. col @ '' String'') (object_keys first)) @
           [CHR 0x0A] @ ''              ) ENGINE = MergeTree()'' @
           [CHR 0x0A] @ ''              ORDER BY tuple()'' @
           [CHR 0x0A] @ ''            '') # evs)"
proof (intro impI conjI)
  assume a: "ensureConnection W s = (True, s1) \<and> client s1 = Some cfg \<and>
   read_rows W fp delim s1 = (Inr (first # rest), s2)"
  then have e: "ensureConnection W s = (True, s1)"
    and c1: "client s1 = Some cfg"
    and r: "read_rows W fp delim s1 = (Inr (first # rest), s2)"
    by simp_all
  show "trace s2 = trace s1 @ [FsRead fp]"
    using read_rows_frame [of W fp delim s1] r by simp
  have c2: "client s2 = Some cfg"
    using read_rows_frame [of W fp delim s1] r c1 by simp
  let ?q = "create_table_query tt first"
  have q: "?q = [CHR 0x0A] @ ''              CREATE TABLE IF NOT EXISTS '' @ tt @ '' ('' @
           [CHR 0x0A] @ ''                '' @
             join '', '' (map (\<lambda>col. col @ '' String'') (object_keys first)) @
           [CHR 0x0A] @ ''              ) ENGINE = MergeTree()'' @
           [CHR 0x0A] @ ''              ORDER BY tuple()'' @
           [CHR 0x0A] @ ''            ''"
    by (simp add: create_table_query_def Let_def)
  have "\<exists>evs. trace (snd (flatFileToClickhouse W fp tt delim s)) = trace s2 @ Exec cfg ?q # evs"
  proof (cases "store_run W (db s2) cfg ?q")
    case (Inl err)
    then show ?thesis
      unfolding flatFileToClickhouse_rows [OF e r] by (simp add: client_exec_live [OF c2])
  next
    case (Inr res)
    obtain rs d' where res: "res = (rs, d')" by (cases res)
    let ?s3 = "s2\<lparr>db := d', trace := trace s2 @ [Exec cfg ?q]\<rparr>"
    have x: "client_exec W ?q s2 = (Inr (), ?s3)"
      using Inr res by (simp add: client_exec_live [OF c2])
    have "\<exists>evs. trace (snd (insert_rows W tt (first # rest) ?s3)) = trace ?s3 @ evs"
      by (rule insert_rows_extends)
    then obtain evs where "trace (snd (insert_rows W tt (first # rest) ?s3)) = trace ?s3 @ evs"
      by blast
    then show ?thesis
      unfolding flatFileToClickhouse_rows [OF e r] x
      by (cases "insert_rows W tt (first # rest) ?s3") (auto split: sum.splits simp del: insert_rows.simps)
  qed
  then show "\<exists>evs. trace (snd (flatFileToClickhouse W fp tt delim s)) =
        trace s2 @
        Exec cfg
          ([CHR 0x0A] @ ''              CREATE TABLE IF NOT EXISTS '' @ tt @ '' ('' @
           [CHR 0x0A] @ ''                '' @
             join '', '' (map (\<lambda>col. col @ '' String'') (object_keys first)) @
           [CHR 0x0A] @ ''              ) ENGINE = MergeTree()'' @
           [CHR 0x0A] @ ''              ORDER BY tuple()'' @
           [CHR 0x0A] @ ''            '') # evs"
    by (simp only: q)
qed

lemma demo_store_accepts:
  assumes "url cfg \<noteq> ''https://down:8443''" and "q \<noteq> bad" and "\<not> startsWith q ''SELECT ''"
  shows "demo_store rows bad d cfg q = Inr ([], d @ [q])"
proof -
  from assms(3) have "q \<noteq> ''SELECT 1''" by (auto simp: startsWith_def)
  with assms show ?thesis by (simp add: demo_store_def)
qed

lemma demo_store_rejects:
  assumes "url cfg \<noteq> ''https://down:8443''"
  shows "demo_store rows bad d cfg bad = Inl ''Code: 62. Syntax error''"
  using assms by (simp add: demo_store_def)

lemma demo_statements:
  "\<not> startsWith (create_table_query tt row) ''SELECT ''"
  "\<not> startsWith (insert_query tt row) ''SELECT ''"
  "create_table_query tt row \<noteq> insert_query tt' row'"
  by (simp_all add: create_table_query_def insert_query_def startsWith_def Let_def)

lemma demo_inserts_differ:
  "insert_query ''t1'' [(''name'', ''Alice''), (''age'', ''30'')] \<noteq>
   insert_query ''t1'' [(''name'', ''Bob''), (''age'', ''25'')]"
  by (simp add: insert_query_def object_keys_def object_values_def object_entries_def
        is_array_index_def is_digit_def escape_quotes_def)

lemma demo_read_rows:
  "read_rows (demo_world rows bad) ''/srv/app/uploads/people.csv'' '',''
     (demo_server (Some demo_config) (Some demo_config)) =
   (Inr ([(''name'', ''Alice''), (''age'', ''30'')] #
         [[(''name'', ''Bob''), (''age'', ''25'')], [(''name'', ''Carol''), (''age'', ''41'')]]),
    (demo_server (Some demo_config) (Some demo_config))
      \<lparr>trace := [FsRead ''/srv/app/uploads/people.csv'']\<rparr>)"
  by (simp add: read_rows_def log_event_def demo_world_def demo_parse_def demo_server_def demo_disk_def)

lemma demo_client_exec:
  assumes "client s = Some demo_config" and "q \<noteq> bad" and "\<not> startsWith q ''SELECT ''"
  shows "client_exec (demo_world rows bad) q s =
           (Inr (), s\<lparr>db := db s @ [q], trace := trace s @ [Exec demo_config q]\<rparr>)"
  using assms by (simp add: client_exec_live demo_world_def demo_store_accepts demo_url)

theorem import_aborts_at_failed_insert_witness:
  "flatFileToClickhouse
     (demo_world [] (insert_query ''t1'' [(''name'', ''Bob''), (''age'', ''25'')]))
     ''/srv/app/uploads/people.csv'' ''t1'' '',''
     (demo_server (Some demo_config) (Some demo_config)) =
   (Inl (Rejected ''Code: 62. Syntax error''),
    (demo_server (Some demo_config) (Some demo_config))
      \<lparr>db := [create_table_query ''t1'' [(''name'', ''Alice''), (''age'', ''30'')],
              insert_query ''t1'' [(''name'', ''Alice''), (''age'', ''30'')]],
       trace := [FsRead ''/srv/app/uploads/people.csv'',
                 Exec demo_config (create_table_query ''t1'' [(''name'', ''Alice''), (''age'', ''30'')]),
                 Exec demo_config (insert_query ''t1'' [(''name'', ''Alice''), (''age'', ''30'')]),
                 Exec demo_config (insert_query ''t1'' [(''name'', ''Bob''), (''age'', ''25'')])]\<rparr>)"
proof -
  let ?alice = "[(''name'', ''Alice''), (''age'', ''30'')]"
  let ?bob = "[(''name'', ''Bob''), (''age'', ''25'')]"
  let ?carol = "[(''name'', ''Carol''), (''age'', ''41'')]"
  let ?rows = "?alice # [?bob, ?carol]"
  let ?fp = "''/srv/app/uploads/people.csv''"
  let ?W = "demo_world [] (insert_query ''t1'' ?bob)"
  let ?s = "demo_server (Some demo_config) (Some demo_config)"
  let ?s2 = "?s\<lparr>trace := [FsRead ?fp]\<rparr>"
  let ?s3 = "?s\<lparr>db := [create_table_query ''t1'' ?alice],
                   trace := [FsRead ?fp, Exec demo_config (create_table_query ''t1'' ?alice)]\<rparr>"
  let ?s4 = "?s\<lparr>db := [create_table_query ''t1'' ?alice, insert_query ''t1'' ?alice],
                   trace := [FsRead ?fp, Exec demo_config (create_table_query ''t1'' ?alice),
                             Exec demo_config (insert_query ''t1'' ?alice)]\<rparr>"
  have s: "client ?s = Some demo_config" "db ?s = []" "trace ?s = []"
    by (simp_all add: demo_server_def)
  have k: "1 \<le> (2::nat)" "2 \<le> length ?rows" by simp_all
  have e: "ensureConnection ?W ?s = (True, ?s)" by (rule demo_ensure_live)
  have r: "read_rows ?W ?fp '','' ?s = (Inr ?rows, ?s2)" by (rule demo_read_rows)
  have c: "client_exec ?W (create_table_query ''t1'' (hd ?rows)) ?s2 = (Inr (), ?s3)"
    using demo_client_exec [of ?s2 "create_table_query ''t1'' ?alice" "insert_query ''t1'' ?bob" "[]"] s
    by (simp add: demo_statements)
  have i: "insert_rows ?W ''t1'' (take (2 - 1) ?rows) ?s3 = (Inr (), ?s4)"
    using demo_client_exec [of ?s3 "insert_query ''t1'' ?alice" "insert_query ''t1'' ?bob" "[]"] s
    by (simp add: demo_statements demo_inserts_differ)
  have b: "store_run ?W (db ?s4) demo_config (insert_query ''t1'' (?rows ! (2 - 1))) =
      Inl ''Code: 62. Syntax error''"
    by (simp add: demo_world_def demo_store_rejects demo_url)
  from k e s(1) r c i b
    import_aborts_at_failed_insert [where k = 2 and rows = ?rows and W = ?W and s = ?s
      and ?s1.0 = ?s and cfg = demo_config and fp = ?fp and delim = "'',''" and ?s2.0 = ?s2
      and tt = "''t1''" and ?s3.0 = ?s3 and ?s4.0 = ?s4 and err = "''Code: 62. Syntax error''"]
  have "flatFileToClickhouse ?W ?fp ''t1'' '','' ?s =
       (Inl (Rejected ''Code: 62. Syntax error''),
        ?s4\<lparr>trace := trace ?s4 @ [Exec demo_config (insert_query ''t1'' (?rows ! (2 - 1)))]\<rparr>)"
    by blast
  then show ?thesis by simp
qed

lemma demo_keys_people:
  "object_keys [(''name'', ''Alice''), (''age'', ''30'')] = [''name'', ''age'']"
  by (simp add: object_keys_def object_entries_def is_array_index_def is_digit_def)

theorem import_creates_table_from_first_record_witness:
  "\<exists>evs. trace (snd (flatFileToClickhouse (demo_world [] []) ''/srv/app/uploads/people.csv'' ''t1'' '',''
                 (demo_server (Some demo_config) (Some demo_config)))) =
     FsRead ''/srv/app/uploads/people.csv'' #
     Exec demo_config
       ([CHR 0x0A] @ ''              CREATE TABLE IF NOT EXISTS t1 ('' @
        [CHR 0x0A] @ ''                name String, age String'' @
        [CHR 0x0A] @ ''              ) ENGINE = MergeTree()'' @
        [CHR 0x0A] @ ''              ORDER BY tuple()'' @
        [CHR 0x0A] @ ''            '') # evs"
proof -
  let ?fp = "''/srv/app/uploads/people.csv''"
  let ?W = "demo_world [] []"
  let ?s = "demo_server (Some demo_config) (Some demo_config)"
  let ?s2 = "?s\<lparr>trace := [FsRead ?fp]\<rparr>"
  have s: "client ?s = Some demo_config" by (simp add: demo_server_def)
  have e: "ensureConnection ?W ?s = (True, ?s)" by (rule demo_ensure_live)
  have r: "read_rows ?W ?fp '','' ?s =
      (Inr ([(''name'', ''Alice''), (''age'', ''30'')] #
            [[(''name'', ''Bob''), (''age'', ''25'')], [(''name'', ''Carol''), (''age'', ''41'')]]), ?s2)"
    by (rule demo_read_rows)
  from e s r
    import_creates_table_from_first_record [where W = ?W and s = ?s and ?s1.0 = ?s
      and cfg = demo_config and fp = ?fp and delim = "'',''" and ?s2.0 = ?s2 and tt = "''t1''"
      and first = "[(''name'', ''Alice''), (''age'', ''30'')]"
      and rest = "[[(''name'', ''Bob''), (''age'', ''25'')], [(''name'', ''Carol''), (''age'', ''41'')]]"]
  have "\<exists>evs. trace (snd (flatFileToClickhouse ?W ?fp ''t1'' '','' ?s)) =
        trace ?s2 @
        Exec demo_config
          ([CHR 0x0A] @ ''              CREATE TABLE IF NOT EXISTS '' @ ''t1'' @ '' ('' @
           [CHR 0x0A] @ ''                '' @
             join '', '' (map (\<lambda>col. col @ '' String'')
                (object_keys [(''name'', ''Alice''), (''age'', ''30'')])) @
           [CHR 0x0A] @ ''              ) ENGINE = MergeTree()'' @
           [CHR 0x0A] @ ''              ORDER BY tuple()'' @
           [CHR 0x0A] @ ''            '') # evs"
    by blast
  then show ?thesis by (simp add: demo_keys_people)
qed

section \<open>Sanitized names below the exports directory\<close>

text \<open>
  Every name whose base name is not empty, \<^verbatim>\<open>.\<close> or \<^verbatim>\<open>..\<close> is resolved to an entry
  directly below the exports directory, whatever the directory of the script is.
\<close>

lemma split_path_nonempty: "split_path p \<noteq> []"
  by (induction p) (auto split: list.splits)

lemma split_path_sep: "split_path (a @ CHR ''/'' # b) = split_path a @ split_path b"
proof (induction a)
  case Nil
  then show ?case by simp
next
  case (Cons c cs)
  then show ?case
    using split_path_nonempty [of cs] by (cases "split_path cs") auto
qed

lemma split_path_plain: "CHR ''/'' \<notin> set b \<Longrightarrow> split_path b = [b]"
  by (induction b) auto

lemma split_path_no_sep: "seg \<in> set (split_path p) \<Longrightarrow> CHR ''/'' \<notin> set seg"
proof (induction p arbitrary: seg)
  case Nil
  then show ?case by simp
next
  case (Cons c cs)
  then show ?case
    by (cases "split_path cs") (auto split: if_splits)
qed

lemma split_path_join:
  assumes "segs \<noteq> []" and "\<forall>seg \<in> set segs. CHR ''/'' \<notin> set seg"
  shows "split_path (join ''/'' segs) = segs"
  using assms
proof (induction segs rule: induct_list012)
  case 1
  then show ?case by simp
next
  case (2 x)
  then show ?case by (simp add: split_path_plain)
next
  case (3 x y zs)
  have "split_path (x @ CHR ''/'' # join ''/'' (y # zs)) = split_path x @ split_path (join ''/'' (y # zs))"
    by (rule split_path_sep)
  with 3 show ?case by (simp add: split_path_plain)
qed

lemma resolve_segments_append:
  "resolve_segments stack (xs @ ys) = resolve_segments (rev (resolve_segments stack xs)) ys"
  by (induction xs arbitrary: stack) auto

lemma join_snoc: "xs \<noteq> [] \<Longrightarrow> join sep (xs @ [b]) = join sep xs @ sep @ b"
  by (induction sep xs rule: join.induct) auto

lemma resolve_segments_plain:
  assumes "\<forall>seg \<in> set segs. plain_segment seg"
  shows "resolve_segments stack segs = rev stack @ segs"
  using assms
proof (induction segs arbitrary: stack)
  case Nil
  then show ?case by simp
next
  case (Cons s segs)
  then have "plain_segment s" by simp
  then have "s \<noteq> []" "s \<noteq> ''.''" "s \<noteq> ''..''"
    unfolding plain_segment_def by blast+
  then have "resolve_segments stack (s # segs) = resolve_segments (s # stack) segs"
    by (simp only: resolve_segments.simps simp_thms if_False)
  also have "\<dots> = rev (s # stack) @ segs"
    using Cons.prems by (intro Cons.IH) simp
  finally show ?case by simp
qed

lemma resolve_segments_all:
  assumes "\<forall>seg \<in> set stack. plain_segment seg"
    and "\<forall>seg \<in> set segs. CHR ''/'' \<notin> set seg"
  shows "\<forall>seg \<in> set (resolve_segments stack segs). plain_segment seg"
  using assms
proof (induction segs arbitrary: stack)
  case Nil
  then show ?case by simp
next
  case (Cons s segs)
  have tl: "\<forall>seg \<in> set (tl stack). plain_segment seg"
    using Cons.prems(1) by (cases stack) simp_all
  have rest: "\<forall>seg \<in> set segs. CHR ''/'' \<notin> set seg"
    using Cons.prems(2) by simp
  consider (skip) "s = [] \<or> s = ''.''" | (up) "s \<noteq> []" "s \<noteq> ''.''" "s = ''..''"
    | (down) "s \<noteq> []" "s \<noteq> ''.''" "s \<noteq> ''..''"
    by blast
  then show ?case
  proof cases
    case skip
    then have "resolve_segments stack (s # segs) = resolve_segments stack segs"
      by (simp only: resolve_segments.simps if_True)
    moreover have "\<forall>seg \<in> set (resolve_segments stack segs). plain_segment seg"
      by (rule Cons.IH [OF Cons.prems(1) rest])
    ultimately show ?thesis by (simp only:)
  next
    case up
    then have "resolve_segments stack (s # segs) = resolve_segments (tl stack) segs"
      by (simp only: resolve_segments.simps simp_thms if_True if_False)
    moreover have "\<forall>seg \<in> set (resolve_segments (tl stack) segs). plain_segment seg"
      by (rule Cons.IH [OF tl rest])
    ultimately show ?thesis by (simp only:)
  next
    case down
    then have "resolve_segments stack (s # segs) = resolve_segments (s # stack) segs"
      by (simp only: resolve_segments.simps simp_thms if_True if_False)
    moreover have "CHR ''/'' \<notin> set s"
      using Cons.prems(2) by simp
    with down have "plain_segment s"
      unfolding plain_segment_def by blast
    then have "\<forall>seg \<in> set (s # stack). plain_segment seg"
      using Cons.prems(1) by simp
    then have "\<forall>seg \<in> set (resolve_segments (s # stack) segs). plain_segment seg"
      by (rule Cons.IH [OF _ rest])
    ultimately show ?thesis by (simp only:)
  qed
qed

lemma plain_segment_no_sep: "plain_segment seg \<Longrightarrow> CHR ''/'' \<notin> set seg"
  unfolding plain_segment_def by blast

lemma path_normalize_child:
  assumes segs: "segs \<noteq> []" "\<forall>seg \<in> set segs. plain_segment seg"
    and b: "plain_segment b"
  shows "path_normalize ((CHR ''/'' # join ''/'' segs) @ ''/'' @ b) = (CHR ''/'' # join ''/'' segs) @ ''/'' @ b"
proof -
  have nosep: "\<forall>seg \<in> set segs. CHR ''/'' \<notin> set seg"
    using segs(2) plain_segment_no_sep by blast
  have "split_path ((CHR ''/'' # join ''/'' segs) @ ''/'' @ b) =
      split_path (CHR ''/'' # join ''/'' segs) @ split_path b"
    using split_path_sep [of "CHR ''/'' # join ''/'' segs" b] by simp
  also have "\<dots> = ([] # segs) @ [b]"
    using split_path_join [OF segs(1) nosep] split_path_plain [OF plain_segment_no_sep [OF b]] by simp
  finally have "resolve_segments [] (split_path ((CHR ''/'' # join ''/'' segs) @ ''/'' @ b)) =
      resolve_segments [] (segs @ [b])"
    by simp
  also have "\<dots> = segs @ [b]"
    using segs(2) b resolve_segments_plain [of "segs @ [b]" "[]"] by simp
  finally show ?thesis
    using join_snoc [OF segs(1), of "''/''" b] by (simp add: path_normalize_def)
qed

lemma exports_dir_shape:
  "\<exists>segs. path_join d ''exports'' = CHR ''/'' # join ''/'' segs \<and> segs \<noteq> [] \<and>
     (\<forall>seg \<in> set segs. plain_segment seg)"
proof -
  let ?pre = "resolve_segments [] (split_path d)"
  have "split_path (d @ ''/'' @ ''exports'') = split_path d @ [''exports'']"
    using split_path_sep [of d "''exports''"] by (simp add: split_path_plain)
  then have "resolve_segments [] (split_path (d @ ''/'' @ ''exports'')) = ?pre @ [''exports'']"
    by (simp add: resolve_segments_append)
  then have 1: "path_join d ''exports'' = CHR ''/'' # join ''/'' (?pre @ [''exports''])"
    by (simp add: path_join_def path_normalize_def)
  have "\<forall>seg \<in> set ?pre. plain_segment seg"
    by (rule resolve_segments_all) (simp_all add: split_path_no_sep)
  moreover have "plain_segment ''exports''"
    by (simp add: plain_segment_def)
  ultimately have 2: "\<forall>seg \<in> set (?pre @ [''exports'']). plain_segment seg"
    by simp
  from 1 2 have "path_join d ''exports'' = CHR ''/'' # join ''/'' (?pre @ [''exports'']) \<and>
     ?pre @ [''exports''] \<noteq> [] \<and> (\<forall>seg \<in> set (?pre @ [''exports'']). plain_segment seg)"
    by blast
  then show ?thesis by (rule exI)
qed

lemma sanitized_path_inside_exports:
  assumes "basename name \<noteq> []" and "basename name \<noteq> ''.''" and "basename name \<noteq> ''..''"
  shows "path_join (path_join d ''exports'') (basename name) =
           path_join d ''exports'' @ ''/'' @ basename name"
    and "inside_dir (path_join d ''exports'') (path_join (path_join d ''exports'') (basename name))"
proof -
  obtain segs where e: "path_join d ''exports'' = CHR ''/'' # join ''/'' segs"
    and segs: "segs \<noteq> []" "\<forall>seg \<in> set segs. plain_segment seg"
    using exports_dir_shape [of d] by blast
  have b: "plain_segment (basename name)"
    unfolding plain_segment_def using assms basename_no_separator by blast
  show eq: "path_join (path_join d ''exports'') (basename name) =
           path_join d ''exports'' @ ''/'' @ basename name"
  proof -
    have "path_join (path_join d ''exports'') (basename name) =
        path_normalize (path_join d ''exports'' @ ''/'' @ basename name)"
      using assms(1) by (simp add: path_join_def [of "path_join d ''exports''"])
    also have "\<dots> = path_join d ''exports'' @ ''/'' @ basename name"
      unfolding e by (rule path_normalize_child [OF segs b])
    finally show ?thesis .
  qed
  show "inside_dir (path_join d ''exports'') (path_join (path_join d ''exports'') (basename name))"
    using assms(1) unfolding eq by (simp add: inside_dir_def)
qed

end
